theory Spec2Isabelle
  imports Complex_Main "HOL-Library.Word"
begin

section \<open>JavaScript values\<close>

text \<open>
  A JavaScript string is a sequence of UTF-16 code units; \<open>.length\<close> counts them.
  ASCII literals of the source are written with \<open>js\<close>, the others as their code units.
\<close>

type_synonym jsstring = "16 word list"

definition js :: "string \<Rightarrow> jsstring" where
  "js s = map (\<lambda>c. of_nat (of_char c)) s"

text \<open>
  Numbers are IEEE doubles in the source: \<open>NaN\<close>, or a finite double, kept as the
  rational it denotes. The infinities, and with them overflow, are not modelled.
\<close>

datatype jsnum = NaN | Fin rat

text \<open>
  Rounding to the nearest double, ties to even: the significand has 53 bits, and below
  the smallest normal number the spacing stays that of the subnormals.
  \<open>bit_length n\<close> is the number of binary digits of \<open>n\<close>, \<open>log2_floor x\<close> the
  exponent \<open>e\<close> with \<open>2 ^ e \<le> x < 2 ^ (e + 1)\<close> for a positive \<open>x\<close>.
\<close>

fun bit_length :: "nat \<Rightarrow> nat" where
  "bit_length n = (if n = 0 then 0 else Suc (bit_length (n div 2)))"

declare bit_length.simps [simp del]

definition pow2 :: "int \<Rightarrow> rat" where
  "pow2 k = (if 0 \<le> k then 2 ^ nat k else 1 / 2 ^ nat (- k))"

definition log2_floor :: "rat \<Rightarrow> int" where
  "log2_floor x = (if 1 \<le> x then int (bit_length (nat \<lfloor>x\<rfloor>)) - 1
                   else - int (bit_length (nat (\<lceil>1 / x\<rceil> - 1))))"

definition round_half_even :: "rat \<Rightarrow> int" where
  "round_half_even y =
     (let f = \<lfloor>y\<rfloor>; r = y - of_int f
      in if r < 1 / 2 then f else if 1 / 2 < r then f + 1 else if even f then f else f + 1)"

definition fl :: "rat \<Rightarrow> rat" where
  "fl x = (if x = 0 then 0
           else (let e = max (log2_floor \<bar>x\<bar>) (- 1022); q = pow2 (e - 52)
                 in of_int (round_half_even (x / q)) * q))"

text \<open>A decimal literal of the source denotes the double nearest to it.\<close>

definition lit :: "rat \<Rightarrow> jsnum" where
  "lit r = Fin (fl r)"

text \<open>
  The values that cross the module boundaries: \<open>undefined\<close>, \<open>null\<close>, booleans, numbers,
  strings and plain objects (own properties only, as an association list).
\<close>

datatype jsval =
    JUndefined
  | JNull
  | JBool bool
  | JNum jsnum
  | JStr jsstring
  | JObj "(jsstring \<times> jsval) list"

fun num_truthy :: "jsnum \<Rightarrow> bool" where
  "num_truthy NaN = False"
| "num_truthy (Fin r) = (r \<noteq> 0)"

fun truthy :: "jsval \<Rightarrow> bool" where
  "truthy JUndefined = False"
| "truthy JNull = False"
| "truthy (JBool b) = b"
| "truthy (JNum n) = num_truthy n"
| "truthy (JStr s) = (s \<noteq> [])"
| "truthy (JObj fs) = True"

text \<open>\<open>typeof v === 'string'\<close>\<close>

fun is_string :: "jsval \<Rightarrow> bool" where
  "is_string (JStr s) = True"
| "is_string v = False"

text \<open>\<open>a || b\<close> and \<open>a ?? b\<close>\<close>

definition js_or :: "jsval \<Rightarrow> jsval \<Rightarrow> jsval" where
  "js_or a b = (if truthy a then a else b)"

definition js_nullish :: "jsval \<Rightarrow> jsval \<Rightarrow> jsval" where
  "js_nullish a b = (if a = JUndefined \<or> a = JNull then b else a)"

text \<open>
  \<open>v?.k\<close>: an own property of an object, \<open>undefined\<close> when it is missing or when \<open>v\<close> is
  not an object.
\<close>

fun js_get :: "jsval \<Rightarrow> jsstring \<Rightarrow> jsval" where
  "js_get (JObj fs) k = (case map_of fs k of Some v \<Rightarrow> v | None \<Rightarrow> JUndefined)"
| "js_get v k = JUndefined"

text \<open>
  ToNumber, which unary \<open>+\<close> and \<open>Math.min\<close>/\<open>Math.max\<close> apply to their operand. The
  conversion of a string is the language's StringToNumber and is taken as a parameter.
\<close>

fun to_number :: "(jsstring \<Rightarrow> jsnum) \<Rightarrow> jsval \<Rightarrow> jsnum" where
  "to_number p JUndefined = NaN"
| "to_number p JNull = Fin 0"
| "to_number p (JBool b) = Fin (if b then 1 else 0)"
| "to_number p (JNum n) = n"
| "to_number p (JStr s) = p s"
| "to_number p (JObj fs) = NaN"

definition unary_plus :: "(jsstring \<Rightarrow> jsnum) \<Rightarrow> jsval \<Rightarrow> jsval" where
  "unary_plus p v = JNum (to_number p v)"

fun math_min :: "jsnum \<Rightarrow> jsnum \<Rightarrow> jsnum" where
  "math_min (Fin a) (Fin b) = Fin (min a b)"
| "math_min a b = NaN"

fun math_max :: "jsnum \<Rightarrow> jsnum \<Rightarrow> jsnum" where
  "math_max (Fin a) (Fin b) = Fin (max a b)"
| "math_max a b = NaN"

fun num_lt :: "jsnum \<Rightarrow> jsnum \<Rightarrow> bool" where
  "num_lt (Fin a) (Fin b) = (a < b)"
| "num_lt a b = False"

text \<open>\<open>a * b\<close>: the exact product, rounded.\<close>

fun num_mul :: "jsnum \<Rightarrow> jsnum \<Rightarrow> jsnum" where
  "num_mul (Fin a) (Fin b) = Fin (fl (a * b))"
| "num_mul a b = NaN"

fun math_floor :: "jsnum \<Rightarrow> jsnum" where
  "math_floor (Fin a) = Fin (of_int \<lfloor>a\<rfloor>)"
| "math_floor NaN = NaN"

text \<open>
  \<open>Buffer.byteLength(text, 'utf8')\<close>: one byte below U+0080, two below U+0800, four for
  a surrogate pair, three otherwise (a lone surrogate is encoded as U+FFFD).
\<close>

definition is_high_surrogate :: "16 word \<Rightarrow> bool" where
  "is_high_surrogate c = (0xD800 \<le> c \<and> c \<le> 0xDBFF)"

definition is_low_surrogate :: "16 word \<Rightarrow> bool" where
  "is_low_surrogate c = (0xDC00 \<le> c \<and> c \<le> 0xDFFF)"

fun byteLength :: "jsstring \<Rightarrow> nat" where
  "byteLength [] = 0"
| "byteLength [c] = (if c < 0x80 then 1 else if c < 0x800 then 2 else 3)"
| "byteLength (c # d # cs) =
     (if c < 0x80 then 1 + byteLength (d # cs)
      else if c < 0x800 then 2 + byteLength (d # cs)
      else if is_high_surrogate c \<and> is_low_surrogate d then 4 + byteLength cs
      else 3 + byteLength (d # cs))"


section \<open>utils/tts.js\<close>

subsection \<open>Options and their normalisation\<close>

text \<open>
  The \<open>opts\<close> object of \<open>synthesizeSpeech\<close> and \<open>_innerSynthesize\<close>; an absent property
  is \<open>JUndefined\<close>.
\<close>

record tts_opts =
  o_voiceType :: jsval
  o_speed :: jsval
  o_volume :: jsval
  o_sampleRate :: jsval
  o_lang :: jsval
  o_hq :: jsval

definition no_opts :: tts_opts where
  "no_opts = \<lparr> o_voiceType = JUndefined, o_speed = JUndefined, o_volume = JUndefined,
               o_sampleRate = JUndefined, o_lang = JUndefined, o_hq = JUndefined \<rparr>"

text \<open>\<open>const clamp = (n, min, max) => Math.max(min, Math.min(max, n))\<close>\<close>

definition clamp :: "(jsstring \<Rightarrow> jsnum) \<Rightarrow> jsval \<Rightarrow> jsnum \<Rightarrow> jsnum \<Rightarrow> jsnum" where
  "clamp p n lo hi = math_max lo (math_min hi (to_number p n))"

text \<open>
  Lines 209-221 of the module. Unary \<open>+\<close> binds tighter than \<open>??\<close>, so
  \<open>+opts.speed ?? 0\<close> is \<open>(+opts.speed) ?? 0\<close>.
\<close>

definition fullOpts :: "(jsstring \<Rightarrow> jsnum) \<Rightarrow> tts_opts \<Rightarrow> tts_opts" where
  "fullOpts p opts =
     (let sampleRate = (if truthy (o_hq opts) \<and> \<not> truthy (o_sampleRate opts)
                        then JNum (Fin 16000) else o_sampleRate opts)
      in \<lparr> o_voiceType = js_or (unary_plus p (o_voiceType opts)) (JNum (Fin 1001)),
            o_speed = JNum (clamp p (js_nullish (unary_plus p (o_speed opts)) (JNum (Fin 0)))
                              (Fin (- 2)) (Fin 2)),
            o_volume = JNum (clamp p (js_nullish (unary_plus p (o_volume opts)) (JNum (Fin 5)))
                               (Fin 0) (Fin 10)),
            o_sampleRate = js_or (unary_plus p sampleRate) (JNum (Fin 16000)),
            o_lang = js_or (o_lang opts) (JStr (js ''zh'')),
            o_hq = JUndefined \<rparr>)"


subsection \<open>External services\<close>

text \<open>
  The request sent to the provider by \<open>ttsClient.TextToVoice\<close> (the constant fields
  \<open>Codec\<close>, \<open>ModelType\<close> and the session id are left out).
\<close>

record tts_request =
  q_Text :: jsstring
  q_VoiceType :: jsval
  q_PrimaryLanguage :: jsnum
  q_SampleRate :: jsval
  q_Speed :: jsnum
  q_Volume :: jsnum

datatype net_call = HeadObject jsstring | TextToVoice tts_request | PutObject jsstring

text \<open>
  What the module takes from outside: StringToNumber, the MD5 of the two key templates
  (\<open>dedupKey\<close> in \<open>synthesizeSpeech\<close>, \<open>objectKey\<close> in \<open>_innerSynthesize\<close>), the
  configuration read from the process environment, and the answers of the object store
  and of the provider. \<open>headObject\<close> is true when the object exists; \<open>textToVoice\<close>
  gives the audio payload of the numbered attempt, or nothing when the attempt rejects,
  times out or answers without audio; \<open>putObject\<close> is true when the numbered upload
  succeeds.
\<close>

record tts_env =
  parseNumber :: "jsstring \<Rightarrow> jsnum"
  dedupKey :: "tts_opts \<Rightarrow> jsstring \<Rightarrow> jsstring"
  objectKey :: "tts_request \<Rightarrow> jsstring"
  defaultLang :: jsstring
  cosConfigured :: bool
  headObject :: "jsstring \<Rightarrow> bool"
  textToVoice :: "tts_request \<Rightarrow> nat \<Rightarrow> jsstring option"
  putObject :: "jsstring \<Rightarrow> nat \<Rightarrow> bool"
  buildUrl :: "jsstring \<Rightarrow> jsstring"

datatype tts_error = TextEmpty | TextTooLong nat | SynthesisFailed

text \<open>\<open>const langMap = { zh: 1, en: 2, ja: 3 }\<close>; members inherited from
  \<open>Object.prototype\<close> are not modelled.\<close>

definition langMap :: "jsstring \<rightharpoonup> jsnum" where
  "langMap = map_of [(js ''zh'', Fin 1), (js ''en'', Fin 2), (js ''ja'', Fin 3)]"

fun langMap_get :: "jsval \<Rightarrow> jsnum option" where
  "langMap_get (JStr s) = langMap s"
| "langMap_get v = None"

definition primaryLanguage :: "tts_env \<Rightarrow> tts_opts \<Rightarrow> jsnum" where
  "primaryLanguage env opts =
     (case langMap_get (o_lang opts) of
        Some n \<Rightarrow> n
      | None \<Rightarrow> (case langMap (defaultLang env) of Some n \<Rightarrow> n | None \<Rightarrow> Fin 1))"

subsection \<open>\<open>_innerSynthesize\<close>\<close>

text \<open>
  The upload loop \<open>for (cosAttempt = 0; cosAttempt < 2; cosAttempt++)\<close>; the last
  argument counts the iterations left. It returns the result object and the calls made.
\<close>

fun uploadLoop ::
  "tts_env \<Rightarrow> jsstring \<Rightarrow> jsstring \<Rightarrow> nat \<Rightarrow> nat \<Rightarrow> jsval \<times> net_call list" where
  "uploadLoop env key base64 cosAttempt 0 = (JObj [(js ''base64'', JStr base64)], [])"
| "uploadLoop env key base64 cosAttempt (Suc n) =
     (if putObject env key cosAttempt
      then (JObj [(js ''url'', JStr (buildUrl env key)), (js ''base64'', JStr base64)],
            [PutObject key])
      else (let (r, tr) = uploadLoop env key base64 (Suc cosAttempt) n
            in (r, PutObject key # tr)))"

text \<open>
  The synthesis loop \<open>for (attempt = 0; attempt < 2; attempt++)\<close>; leaving the loop
  without a result is the final \<open>throw\<close>.
\<close>

fun ttsLoop ::
  "tts_env \<Rightarrow> tts_request \<Rightarrow> jsstring \<Rightarrow> nat \<Rightarrow> nat \<Rightarrow> (tts_error + jsval) \<times> net_call list"
  where
  "ttsLoop env req key attempt 0 = (Inl SynthesisFailed, [])"
| "ttsLoop env req key attempt (Suc n) =
     (case textToVoice env req attempt of
        Some audio \<Rightarrow>
          (let base64 = js ''data:audio/mpeg;base64,'' @ audio;
               (r, tr) = (if cosConfigured env then uploadLoop env key base64 0 2
                          else (JObj [(js ''base64'', JStr base64)], []))
           in (Inr r, TextToVoice req # tr))
      | None \<Rightarrow>
          (let (r, tr) = ttsLoop env req key (Suc attempt) n
           in (r, TextToVoice req # tr)))"

definition innerSynthesize ::
  "tts_env \<Rightarrow> jsstring \<Rightarrow> tts_opts \<Rightarrow> (tts_error + jsval) \<times> net_call list" where
  "innerSynthesize env text opts =
     (let p = parseNumber env;
          req = \<lparr> q_Text = text,
                  q_VoiceType = js_or (unary_plus p (o_voiceType opts)) (JNum (Fin 1001)),
                  q_PrimaryLanguage = primaryLanguage env opts,
                  q_SampleRate = js_or (unary_plus p (o_sampleRate opts)) (JNum (Fin 16000)),
                  q_Speed = clamp p (js_nullish (unary_plus p (o_speed opts)) (JNum (Fin 0)))
                              (Fin (- 2)) (Fin 2),
                  q_Volume = clamp p (js_nullish (unary_plus p (o_volume opts)) (JNum (Fin 5)))
                               (Fin 0) (Fin 10) \<rparr>;
          cacheKey = objectKey env req
      in if cosConfigured env \<and> headObject env cacheKey
         then (Inr (JObj [(js ''url'', JStr (buildUrl env cacheKey))]), [HeadObject cacheKey])
         else (let (r, tr) = ttsLoop env req cacheKey 0 2
               in (r, (if cosConfigured env then [HeadObject cacheKey] else []) @ tr)))"

subsection \<open>The pending-request registry and \<open>synthesizeSpeech\<close>\<close>

text \<open>
  A task is one run of \<open>_innerSynthesize\<close>. \<open>pending\<close> is the module's \<open>Map\<close>;
  \<open>inflight\<close> lists the runs that were started and have not settled yet.
\<close>

record task =
  task_id :: nat
  task_key :: jsstring
  task_text :: jsstring
  task_opts :: tts_opts

record registry =
  pending :: "jsstring \<rightharpoonup> task"
  inflight :: "task list"
  nextTask :: nat

definition empty_registry :: registry where
  "empty_registry = \<lparr> pending = Map.empty, inflight = [], nextTask = 0 \<rparr>"

datatype synth_start = Rejected tts_error | Reused task | Started task

fun the_string :: "jsval \<Rightarrow> jsstring" where
  "the_string (JStr s) = s"
| "the_string v = []"

text \<open>
  The body of \<open>synthesizeSpeech\<close> up to its \<open>return\<close>: it throws, hands back the task
  that is pending under the key, or starts \<open>_innerSynthesize\<close> and registers it.
\<close>

definition synthesizeSpeech ::
  "tts_env \<Rightarrow> jsval \<Rightarrow> tts_opts \<Rightarrow> registry \<Rightarrow> synth_start \<times> registry" where
  "synthesizeSpeech env text opts reg =
     (if \<not> truthy text \<or> \<not> is_string text then (Rejected TextEmpty, reg)
      else let s = the_string text; n = byteLength s
           in if 2000 < n then (Rejected (TextTooLong n), reg)
              else let fo = fullOpts (parseNumber env) opts;
                       cacheKey = dedupKey env fo s
                   in (case pending reg cacheKey of
                         Some t \<Rightarrow> (Reused t, reg)
                       | None \<Rightarrow>
                           (let t = \<lparr> task_id = nextTask reg, task_key = cacheKey,
                                      task_text = s, task_opts = fo \<rparr>
                            in (Started t,
                                reg\<lparr> pending := (pending reg)(cacheKey \<mapsto> t),
                                     inflight := t # inflight reg,
                                     nextTask := Suc (nextTask reg) \<rparr>))))"

text \<open>\<open>.finally(() => pending.delete(cacheKey))\<close>, run when the task settles.\<close>

definition settle :: "task \<Rightarrow> registry \<Rightarrow> registry" where
  "settle t reg = reg\<lparr> pending := (pending reg)(task_key t := None),
                       inflight := removeAll t (inflight reg) \<rparr>"

text \<open>
  \<open>await synthesizeSpeech(text, opts)\<close> with nothing else interleaved: the value or the
  error the caller resumes with, the network calls made on its behalf, and the registry
  afterwards. A reused task's calls were made for the caller that started it.
\<close>

definition awaitSynthesizeSpeech ::
  "tts_env \<Rightarrow> jsval \<Rightarrow> tts_opts \<Rightarrow> registry \<Rightarrow> (tts_error + jsval) \<times> net_call list \<times> registry"
  where
  "awaitSynthesizeSpeech env text opts reg =
     (case synthesizeSpeech env text opts reg of
        (Rejected e, reg') \<Rightarrow> (Inl e, [], reg')
      | (Started t, reg') \<Rightarrow>
          (let (r, tr) = innerSynthesize env (task_text t) (task_opts t)
           in (r, tr, settle t reg'))
      | (Reused t, reg') \<Rightarrow>
          (fst (innerSynthesize env (task_text t) (task_opts t)), [], settle t reg'))"

text \<open>
  The registry as a state machine: a call of \<open>synthesizeSpeech\<close> or the settling of a
  task in flight. Each runs without interruption on the single thread.
\<close>

datatype tts_event = EvCall jsval tts_opts | EvSettle nat

fun reg_step :: "tts_env \<Rightarrow> registry \<Rightarrow> tts_event \<Rightarrow> registry" where
  "reg_step env reg (EvCall text opts) = snd (synthesizeSpeech env text opts reg)"
| "reg_step env reg (EvSettle i) =
     (case find (\<lambda>t. task_id t = i) (inflight reg) of
        None \<Rightarrow> reg
      | Some t \<Rightarrow> settle t reg)"

definition reg_run :: "tts_env \<Rightarrow> tts_event list \<Rightarrow> registry" where
  "reg_run env evs = foldl (reg_step env) empty_registry evs"

text \<open>The tasks in flight under a key.\<close>

definition outstanding :: "registry \<Rightarrow> jsstring \<Rightarrow> task list" where
  "outstanding reg k = filter (\<lambda>t. task_key t = k) (inflight reg)"


text \<open>
  The registry invariant: \<open>pending\<close> maps exactly the keys of the tasks in flight,
  each to its task; no two tasks in flight share a key or an id; ids grow.
\<close>

definition reg_inv :: "registry \<Rightarrow> bool" where
  "reg_inv reg =
     ((\<forall>k t. pending reg k = Some t \<longrightarrow> t \<in> set (inflight reg) \<and> task_key t = k)
      \<and> (\<forall>t \<in> set (inflight reg). pending reg (task_key t) = Some t)
      \<and> distinct (map task_key (inflight reg))
      \<and> (\<forall>t \<in> set (inflight reg). task_id t < nextTask reg)
      \<and> distinct (map task_id (inflight reg)))"


section \<open>config.js\<close>

text \<open>The settings read from the process environment; the rest are constants.\<close>

record config =
  DEFAULT_MODEL :: jsstring
  ENABLE_ANALYTICS :: bool
  STRICT_TOPIC_VALIDATION :: bool

definition DEFAULT_VOICE_TYPE :: jsstring where
  "DEFAULT_VOICE_TYPE = js ''zh-CN-XiaoyouNeural''"

definition DEFAULT_SPEED :: jsnum where
  "DEFAULT_SPEED = lit (85 / 100)"

definition DEFAULT_VOLUME :: jsnum where
  "DEFAULT_VOLUME = Fin 0"

definition DEFAULT_FORMAT :: jsstring where
  "DEFAULT_FORMAT = js ''mp3''"

definition DEFAULT_DURATION :: jsnum where
  "DEFAULT_DURATION = Fin 10"

definition WORDS_PER_MINUTE :: jsnum where
  "WORDS_PER_MINUTE = Fin 175"

definition TOKENS_PER_WORD :: jsnum where
  "TOKENS_PER_WORD = Fin (15 / 10)"

definition TOKEN_BUFFER :: jsnum where
  "TOKEN_BUFFER = lit (12 / 10)"

definition TOPIC_VOICE_MAP :: "jsstring \<rightharpoonup> jsstring" where
  "TOPIC_VOICE_MAP = map_of
     [([0x52A9, 0x7720], js ''zh-CN-XiaoyouNeural''),
      ([0x6668, 0x95F4, 0x5524, 0x9192], js ''zh-CN-YunyangNeural''),
      ([0x513F, 0x7AE5, 0x51A5, 0x60F3], js ''zh-CN-XiaoxiaoNeural'')]"

definition STYLE_VOICE_MAP :: "jsstring \<rightharpoonup> jsstring" where
  "STYLE_VOICE_MAP = map_of
     [(js ''gentle'', js ''zh-CN-XiaoyouNeural''),
      (js ''healing'', js ''zh-CN-YunxiNeural''),
      (js ''mindful'', js ''zh-CN-XiaoxiaoNeural''),
      (js ''zen'', js ''zh-CN-YunzeNeural''),
      (js ''nature'', js ''zh-CN-XiaoyouNeural''),
      (js ''modern'', js ''zh-CN-YunyangNeural'')]"

definition SUPPORTED_LANGUAGES :: "jsstring list" where
  "SUPPORTED_LANGUAGES = [js ''zh'', js ''en'']"

text \<open>
  The error codes the router uses: members of \<open>ERROR_CODES\<close>, the two literals of the
  batch interface, and a code carried by a thrown error.
\<close>

datatype error_code =
    INVALID_LANGUAGE
  | INVALID_DURATION
  | INVALID_TOPIC
  | LLM_FAILED
  | EMPTY_CONTENT
  | MEDITATION_GENERATION_ERROR
  | INVALID_TOPICS
  | BATCH_ITEM_ERROR
  | ThrownCode jsval

fun code_string :: "error_code \<Rightarrow> jsval" where
  "code_string INVALID_LANGUAGE = JStr (js ''PARAM_INVALID_LANGUAGE'')"
| "code_string INVALID_DURATION = JStr (js ''PARAM_INVALID_DURATION'')"
| "code_string INVALID_TOPIC = JStr (js ''PARAM_INVALID_TOPIC'')"
| "code_string LLM_FAILED = JStr (js ''LLM_CALL_FAILED'')"
| "code_string EMPTY_CONTENT = JStr (js ''LLM_CONTENT_EMPTY'')"
| "code_string MEDITATION_GENERATION_ERROR = JStr (js ''MEDITATION_GENERATION_ERROR'')"
| "code_string INVALID_TOPICS = JStr (js ''INVALID_TOPICS'')"
| "code_string BATCH_ITEM_ERROR = JStr (js ''BATCH_ITEM_ERROR'')"
| "code_string (ThrownCode v) = v"

text \<open>An \<open>error\<close> of a result: built by the router, or the object the model client
  returned, passed through. Messages are left out.\<close>

datatype gen_error = Error error_code | Upstream jsval


section \<open>utils/meditation\_prompt.js\<close>

text \<open>
  Modelled from the spec: \<open>prompts/meditation_types.json\<close>, the topic catalogue, is not
  among the sources. An entry has the shape of the spec's TopicDescriptor, which is also
  what the code reads of it; the catalogue itself is a parameter of every function below.
\<close>

record topic_config =
  tc_id :: jsstring
  tc_name :: "(jsstring \<times> jsstring) list"
  tc_description :: "(jsstring \<times> jsstring) list"
  tc_recommendedStyles :: "jsstring list"
  tc_defaultDuration :: jsnum
  tc_targetAudience :: "(jsstring \<times> jsstring list) list"
  tc_benefits :: "(jsstring \<times> jsstring list) list"
  tc_keywords :: "jsstring list"
  tc_techniques :: "jsstring list option"
  tc_bestTime :: "jsstring list option"
  tc_progression :: "jsstring list option"

definition findTopicConfig :: "topic_config list \<Rightarrow> jsstring \<Rightarrow> topic_config option" where
  "findTopicConfig types topic =
     find (\<lambda>t. tc_id t = topic
               \<or> map_of (tc_name t) (js ''zh'') = Some topic
               \<or> map_of (tc_name t) (js ''en'') = Some topic
               \<or> topic \<in> set (tc_keywords t)) types"

record customization =
  cu_additionalConstraints :: "jsstring list option"
  cu_specialRequirements :: "jsstring list option"

text \<open>The argument object of \<open>buildPrompt\<close>; \<open>None\<close> is an absent property.\<close>

record prompt_args =
  pa_topic :: "jsstring option"
  pa_style :: "jsstring option"
  pa_duration :: "jsnum option"
  pa_language :: "jsstring option"
  pa_customization :: "customization option"

text \<open>
  The prompt text is assembled (lines 85-116) from the values below and from constant
  templates only; the prompt is kept as the record of these values.
\<close>

record built_prompt =
  bp_topic :: jsstring
  bp_style :: "jsstring option"
  bp_duration :: jsnum
  bp_language :: jsstring
  bp_customization :: customization
  bp_topicConfig :: "topic_config option"

definition default_topic :: jsstring where
  "default_topic = [0x57FA, 0x7840, 0x653E, 0x677E]"

text \<open>
  Lines 69-83: the parameter defaults apply first, to an absent property; the topic's
  own defaults are then taken where the value is falsy.
\<close>

definition buildPrompt :: "topic_config list \<Rightarrow> prompt_args \<Rightarrow> built_prompt" where
  "buildPrompt types a =
     (let topic = (case pa_topic a of None \<Rightarrow> default_topic | Some t \<Rightarrow> t);
          style0 = (case pa_style a of None \<Rightarrow> js ''gentle'' | Some s \<Rightarrow> s);
          duration0 = (case pa_duration a of None \<Rightarrow> Fin 10 | Some d \<Rightarrow> d);
          language = (case pa_language a of None \<Rightarrow> js ''zh'' | Some l \<Rightarrow> l);
          customization =
            (case pa_customization a of
               None \<Rightarrow> \<lparr> cu_additionalConstraints = None, cu_specialRequirements = None \<rparr>
             | Some c \<Rightarrow> c);
          topicConfig = findTopicConfig types topic;
          style = (case topicConfig of
                     Some tc \<Rightarrow>
                       (if style0 \<noteq> [] then Some style0
                        else (case tc_recommendedStyles tc of [] \<Rightarrow> None | x # xs \<Rightarrow> Some x))
                   | None \<Rightarrow> Some style0);
          duration = (case topicConfig of
                        Some tc \<Rightarrow>
                          (if num_truthy duration0 then duration0 else tc_defaultDuration tc)
                      | None \<Rightarrow> duration0)
      in \<lparr> bp_topic = topic, bp_style = style, bp_duration = duration,
            bp_language = language, bp_customization = customization,
            bp_topicConfig = topicConfig \<rparr>)"

definition getSupportedTopics :: "topic_config list \<Rightarrow> jsstring \<Rightarrow> jsstring option list" where
  "getSupportedTopics types language = map (\<lambda>t. map_of (tc_name t) language) types"

record topic_details =
  td_id :: jsstring
  td_name :: "jsstring option"
  td_description :: "jsstring option"
  td_recommendedStyles :: "jsstring list"
  td_defaultDuration :: jsnum
  td_targetAudience :: "jsstring list option"
  td_benefits :: "jsstring list option"
  td_keywords :: "jsstring list"

definition getTopicDetails :: "topic_config list \<Rightarrow> jsstring \<Rightarrow> jsstring \<Rightarrow> topic_details option"
  where
  "getTopicDetails types topic language =
     (case findTopicConfig types topic of
        None \<Rightarrow> None
      | Some tc \<Rightarrow>
          Some \<lparr> td_id = tc_id tc,
                 td_name = map_of (tc_name tc) language,
                 td_description = map_of (tc_description tc) language,
                 td_recommendedStyles = tc_recommendedStyles tc,
                 td_defaultDuration = tc_defaultDuration tc,
                 td_targetAudience = map_of (tc_targetAudience tc) language,
                 td_benefits = map_of (tc_benefits tc) language,
                 td_keywords = tc_keywords tc \<rparr>)"


section \<open>router/meditationGuide.js\<close>

subsection \<open>Requests, the model client, results\<close>

text \<open>
  The event of \<open>handleMeditationGuide\<close>, typed as its documentation declares it;
  \<open>None\<close> is an absent property.
\<close>

record gen_options =
  op_model :: "jsstring option"
  op_temperature :: "jsnum option"
  op_voiceType :: "jsstring option"
  op_speed :: "jsnum option"
  op_volume :: "jsnum option"
  op_format :: "jsstring option"
  op_skipAudio :: "bool option"
  op_customization :: "customization option"

definition empty_options :: gen_options where
  "empty_options = \<lparr> op_model = None, op_temperature = None, op_voiceType = None,
                      op_speed = None, op_volume = None, op_format = None,
                      op_skipAudio = None, op_customization = None \<rparr>"

record event =
  ev_topic :: "jsstring option"
  ev_style :: "jsstring option"
  ev_duration :: "jsnum option"
  ev_language :: "jsstring option"
  ev_voice :: "bool option"
  ev_options :: "gen_options option"

definition empty_event :: event where
  "empty_event = \<lparr> ev_topic = None, ev_style = None, ev_duration = None,
                    ev_language = None, ev_voice = None, ev_options = None \<rparr>"

text \<open>
  The user message: the inline template of the quick mode (the prompt builder has no
  \<open>buildQuickPrompt\<close>, so the fallback of line 66 is what runs), with the duration and
  the topic it interpolates, or the prompt of \<open>buildPrompt\<close>.
\<close>

datatype prompt = QuickPrompt jsnum jsstring | StandardPrompt built_prompt

record llm_request =
  rq_system :: jsstring
  rq_user :: prompt
  rq_model :: jsstring
  rq_temperature :: jsnum
  rq_maxTokens :: jsnum

text \<open>
  What the router reads of the value \<open>callLLM\<close> resolves to: \<open>success\<close>, \<open>error\<close>,
  \<open>data?.text\<close>, \<open>data?.choices?.[0]?.message?.content\<close> and \<open>data?.content\<close>.
\<close>

record llm_response =
  rs_success :: jsval
  rs_error :: jsval
  rs_text :: jsval
  rs_choice_content :: jsval
  rs_content :: jsval

text \<open>
  The two modules the router requires. \<open>callLLM\<close> resolves to a response or throws
  an error object; \<open>synthesizeSpeech\<close> is called with one argument and resolves or
  throws, with the network calls made meanwhile.
\<close>

record deps =
  callLLM :: "llm_request \<Rightarrow> jsval + llm_response"
  synthesizeSpeech_dep :: "jsval \<Rightarrow> (tts_error + jsval) \<times> net_call list"

datatype effect = CallLLM llm_request | CallSynthesizeSpeech jsval | Net net_call

record audio_data =
  au_url :: jsval
  au_duration :: jsval
  au_format :: jsval

datatype mode = Quick | Standard

text \<open>The metadata of a result, without the timestamp and the estimated read time.\<close>

record metadata =
  md_topic :: "jsstring option"
  md_topicId :: "jsstring option"
  md_style :: "jsstring option"
  md_duration :: jsnum
  md_mode :: mode
  md_language :: jsstring
  md_benefits :: "jsstring list option"
  md_targetAudience :: "jsstring list option"
  md_textLength :: "nat option"
  md_wordCount :: nat

record gen_data =
  d_text :: jsval
  d_audio :: "audio_data option"
  d_metadata :: metadata

record gen_result =
  r_success :: bool
  r_data :: "gen_data option"
  r_error :: "gen_error option"

definition failure :: "gen_error \<Rightarrow> gen_result" where
  "failure e = \<lparr> r_success = False, r_data = None, r_error = Some e \<rparr>"

subsection \<open>Helpers\<close>

definition validateInputs ::
  "config \<Rightarrow> topic_config list \<Rightarrow> jsstring \<Rightarrow> jsstring \<Rightarrow> jsnum \<Rightarrow> gen_error option" where
  "validateInputs cfg types topic language duration =
     (if language \<noteq> [] \<and> language \<notin> set SUPPORTED_LANGUAGES
      then Some (Error INVALID_LANGUAGE)
      else if num_truthy duration \<and> (num_lt duration (Fin 1) \<or> num_lt (Fin 60) duration)
      then Some (Error INVALID_DURATION)
      else if STRICT_TOPIC_VALIDATION cfg
      then (let lang = (if language \<noteq> [] then language else js ''zh'');
                supportedTopics = getSupportedTopics types lang;
                topicDetails = getTopicDetails types topic lang
            in if topicDetails = None \<and> Some topic \<notin> set supportedTopics
               then Some (Error INVALID_TOPIC) else None)
      else None)"

definition calculateMaxTokens :: "jsnum \<Rightarrow> bool \<Rightarrow> jsnum" where
  "calculateMaxTokens duration isQuickMode =
     (let tokenMultiplier = (if isQuickMode then lit (8 / 10) else Fin 1)
      in math_floor
           (num_mul (num_mul (num_mul (num_mul duration WORDS_PER_MINUTE) TOKENS_PER_WORD)
                       TOKEN_BUFFER) tokenMultiplier))"

definition getVoiceByStyleAndTopic :: "jsstring option \<Rightarrow> jsstring \<Rightarrow> jsstring" where
  "getVoiceByStyleAndTopic style topic =
     (case TOPIC_VOICE_MAP topic of
        Some v \<Rightarrow> v
      | None \<Rightarrow>
          (case (case style of None \<Rightarrow> None | Some s \<Rightarrow> STYLE_VOICE_MAP s) of
             Some v \<Rightarrow> v
           | None \<Rightarrow> DEFAULT_VOICE_TYPE))"

text \<open>The characters of the class \<open>\s\<close>.\<close>

definition is_space :: "16 word \<Rightarrow> bool" where
  "is_space c =
     (c \<in> set [0x09, 0x0A, 0x0B, 0x0C, 0x0D, 0x20, 0xA0, 0x1680, 0x2028, 0x2029, 0x202F,
               0x205F, 0x3000, 0xFEFF]
      \<or> (0x2000 \<le> c \<and> c \<le> 0x200A))"

text \<open>The non-empty pieces of \<open>text.split(/\s+/)\<close>; the flag tells whether the
  previous character was part of a piece.\<close>

fun count_pieces :: "bool \<Rightarrow> jsstring \<Rightarrow> nat" where
  "count_pieces inside [] = 0"
| "count_pieces inside (c # cs) =
     (if is_space c then count_pieces False cs
      else (if inside then 0 else 1) + count_pieces True cs)"

text \<open>\<open>countWords\<close>; \<open>None\<close> is the TypeError of calling \<open>replace\<close> or \<open>split\<close> on a
  value that is not a string.\<close>

fun countWords :: "jsval \<Rightarrow> jsstring \<Rightarrow> nat option" where
  "countWords (JStr s) language =
     (if language = js ''zh''
      then Some (length (filter (\<lambda>c. 0x4E00 \<le> c \<and> c \<le> 0x9FA5) s))
      else Some (count_pieces False s))"
| "countWords v language = None"

fun text_length :: "jsval \<Rightarrow> nat option" where
  "text_length (JStr s) = Some (length s)"
| "text_length v = None"

subsection \<open>\<open>handleMeditationGuide\<close>\<close>

text \<open>Lines 47 and 50.\<close>

definition effectiveDuration :: "event \<Rightarrow> jsnum" where
  "effectiveDuration ev =
     (case ev_duration ev of
        None \<Rightarrow> DEFAULT_DURATION
      | Some d \<Rightarrow> if num_truthy d then d else DEFAULT_DURATION)"

definition isQuickMode :: "jsnum \<Rightarrow> bool" where
  "isQuickMode duration = num_lt duration (Fin 3)"

definition quick_system_prompt :: jsstring where
  "quick_system_prompt =
     [0x4F60, 0x662F, 0x4E00, 0x4E2A, 0x4E13, 0x4E1A, 0x7684, 0x51A5, 0x60F3, 0x5F15, 0x5BFC,
      0x5E08, 0xFF0C, 0x64C5, 0x957F, 0x521B, 0x4F5C, 0x7B80, 0x77ED, 0x6709, 0x529B, 0x7684,
      0x5FEB, 0x901F, 0x51A5, 0x60F3, 0x5F15, 0x5BFC, 0x3002, 0x8BF7, 0x786E, 0x4FDD, 0x5185,
      0x5BB9, 0x7D27, 0x51D1, 0x3001, 0x76F4, 0x63A5, 0x3001, 0x6709, 0x6548, 0x3002]"

definition standard_system_prompt :: jsstring where
  "standard_system_prompt =
     [0x4F60, 0x662F, 0x4E00, 0x4E2A, 0x4E13, 0x4E1A, 0x7684, 0x51A5, 0x60F3, 0x5F15, 0x5BFC,
      0x5E08, 0xFF0C, 0x64C5, 0x957F, 0x521B, 0x4F5C, 0x6E29, 0x548C, 0x3001, 0x5E73, 0x9759,
      0x7684, 0x51A5, 0x60F3, 0x5F15, 0x5BFC, 0x8BCD, 0x3002]"

text \<open>\<open>x || d\<close> for an optional number and for an optional string.\<close>

definition num_or :: "jsnum option \<Rightarrow> jsnum \<Rightarrow> jsnum" where
  "num_or x d = (case x of None \<Rightarrow> d | Some n \<Rightarrow> if num_truthy n then n else d)"

definition str_or :: "jsstring option \<Rightarrow> jsstring \<Rightarrow> jsstring" where
  "str_or x d = (case x of None \<Rightarrow> d | Some s \<Rightarrow> if s \<noteq> [] then s else d)"

text \<open>Lines 80-96: the argument of \<open>callLLM\<close>.\<close>

definition llmRequest ::
  "config \<Rightarrow> gen_options \<Rightarrow> jsnum \<Rightarrow> bool \<Rightarrow> prompt \<Rightarrow> llm_request" where
  "llmRequest cfg options duration quick p =
     \<lparr> rq_system = (if quick then quick_system_prompt else standard_system_prompt),
       rq_user = p,
       rq_model = str_or (op_model options) (DEFAULT_MODEL cfg),
       rq_temperature = (if quick then lit (6 / 10)
                         else num_or (op_temperature options) (lit (7 / 10))),
       rq_maxTokens = calculateMaxTokens duration quick \<rparr>"

text \<open>Lines 136-147: the single object that \<open>synthesizeSpeech\<close> is called with.\<close>

definition speechArg ::
  "bool \<Rightarrow> jsstring option \<Rightarrow> jsstring \<Rightarrow> gen_options \<Rightarrow> jsval \<Rightarrow> jsval" where
  "speechArg quick style topic options meditationText =
     (let speechRate = (if quick then num_or (op_speed options) (lit (11 / 10))
                        else num_or (op_speed options) DEFAULT_SPEED)
      in JObj
           [(js ''text'', meditationText),
            (js ''voiceType'',
               JStr (str_or (op_voiceType options) (getVoiceByStyleAndTopic style topic))),
            (js ''speed'', JNum speechRate),
            (js ''volume'', JNum (num_or (op_volume options) DEFAULT_VOLUME)),
            (js ''format'', JStr (str_or (op_format options) DEFAULT_FORMAT))])"

text \<open>
  Lines 131-163, the body of \<open>if (voice && language === 'zh')\<close>: the call, inside its
  own \<open>try\<close>/\<open>catch\<close>, and what is made of its outcome.
\<close>

definition voicePhase ::
  "deps \<Rightarrow> bool \<Rightarrow> jsstring option \<Rightarrow> jsstring \<Rightarrow> gen_options \<Rightarrow> jsval
   \<Rightarrow> audio_data option \<times> effect list" where
  "voicePhase d quick style topic options meditationText =
     (let arg = speechArg quick style topic options meditationText;
          (outcome, net) = synthesizeSpeech_dep d arg;
          audioData =
            (case outcome of
               Inl ttsError \<Rightarrow> None
             | Inr ttsResponse \<Rightarrow>
                 (if truthy (js_get ttsResponse (js ''success''))
                     \<or> truthy (js_get ttsResponse (js ''audioUrl''))
                  then Some \<lparr> au_url = js_or (js_get ttsResponse (js ''audioUrl''))
                                          (js_get ttsResponse (js ''url'')),
                              au_duration = js_get ttsResponse (js ''duration''),
                              au_format = js_or (js_get ttsResponse (js ''format''))
                                             (JStr DEFAULT_FORMAT) \<rparr>
                  else None))
      in (audioData, CallSynthesizeSpeech arg # map Net net))"

text \<open>
  Lines 166-205: the result object. \<open>countWords\<close> throws on a text that is not a
  string, which the outer \<open>catch\<close> turns into a failure.
\<close>

definition assemble ::
  "topic_config list \<Rightarrow> jsstring \<Rightarrow> jsstring option \<Rightarrow> jsnum \<Rightarrow> bool \<Rightarrow> jsstring \<Rightarrow> jsval
   \<Rightarrow> audio_data option \<Rightarrow> gen_result" where
  "assemble types topic style duration quick language meditationText audioData =
     (let topicDetails = getTopicDetails types topic language
      in case countWords meditationText language of
           None \<Rightarrow> failure (Error MEDITATION_GENERATION_ERROR)
         | Some wordCount \<Rightarrow>
             \<lparr> r_success = True,
               r_data = Some
                 \<lparr> d_text = meditationText,
                   d_audio = audioData,
                   d_metadata =
                     \<lparr> md_topic = (case topicDetails of None \<Rightarrow> Some topic
                                    | Some td \<Rightarrow> td_name td),
                       md_topicId = (case topicDetails of None \<Rightarrow> None
                                      | Some td \<Rightarrow> Some (td_id td)),
                       md_style =
                         (if style \<noteq> None \<and> style \<noteq> Some [] then style
                          else (case topicDetails of
                                  None \<Rightarrow> Some (js ''gentle'')
                                | Some td \<Rightarrow>
                                    (case td_recommendedStyles td of
                                       [] \<Rightarrow> None | x # xs \<Rightarrow> Some x))),
                       md_duration = duration,
                       md_mode = (if quick then Quick else Standard),
                       md_language = language,
                       md_benefits = (case topicDetails of None \<Rightarrow> Some []
                                       | Some td \<Rightarrow> td_benefits td),
                       md_targetAudience = (case topicDetails of None \<Rightarrow> Some []
                                             | Some td \<Rightarrow> td_targetAudience td),
                       md_textLength = text_length meditationText,
                       md_wordCount = wordCount \<rparr> \<rparr>,
               r_error = None \<rparr>)"

text \<open>The \<open>code\<close> the outer \<open>catch\<close> reports for a thrown value.\<close>

definition thrown_error :: "jsval \<Rightarrow> gen_error" where
  "thrown_error e =
     (if truthy (js_get e (js ''code'')) then Error (ThrownCode (js_get e (js ''code'')))
      else Error MEDITATION_GENERATION_ERROR)"

text \<open>Lines 111-114: the text, from the first response shape that has one.\<close>

definition extractText :: "llm_response \<Rightarrow> jsval" where
  "extractText llmResp =
     js_or (js_or (js_or (rs_text llmResp) (rs_choice_content llmResp)) (rs_content llmResp))
       (JStr [])"

text \<open>
  Lines 37-50: the destructuring of the event with its defaults, the effective duration
  and the mode.
\<close>

definition topicOf :: "event \<Rightarrow> jsstring" where
  "topicOf ev = (case ev_topic ev of None \<Rightarrow> default_topic | Some t \<Rightarrow> t)"

definition languageOf :: "event \<Rightarrow> jsstring" where
  "languageOf ev = (case ev_language ev of None \<Rightarrow> js ''zh'' | Some l \<Rightarrow> l)"

definition voiceOf :: "event \<Rightarrow> bool" where
  "voiceOf ev = (case ev_voice ev of None \<Rightarrow> False | Some v \<Rightarrow> v)"

definition optionsOf :: "event \<Rightarrow> gen_options" where
  "optionsOf ev = (case ev_options ev of None \<Rightarrow> empty_options | Some opt \<Rightarrow> opt)"

definition quickOf :: "event \<Rightarrow> bool" where
  "quickOf ev = isQuickMode (effectiveDuration ev)"

text \<open>Lines 63-96: the prompt and the request sent to the model.\<close>

definition promptOf :: "topic_config list \<Rightarrow> event \<Rightarrow> prompt" where
  "promptOf types ev =
     (if quickOf ev then QuickPrompt (effectiveDuration ev) (topicOf ev)
      else StandardPrompt
             (buildPrompt types
                \<lparr> pa_topic = Some (topicOf ev), pa_style = ev_style ev,
                  pa_duration = Some (effectiveDuration ev),
                  pa_language = Some (languageOf ev),
                  pa_customization = op_customization (optionsOf ev) \<rparr>))"

definition requestOf :: "config \<Rightarrow> topic_config list \<Rightarrow> event \<Rightarrow> llm_request" where
  "requestOf cfg types ev =
     llmRequest cfg (optionsOf ev) (effectiveDuration ev) (quickOf ev) (promptOf types ev)"

text \<open>
  The function itself. It returns its result and, in order, the calls it made to the
  two modules and the network calls made under them. Logging and \<open>recordUsage\<close>, which
  only writes to the console, are left out.
\<close>

definition handleMeditationGuide ::
  "config \<Rightarrow> topic_config list \<Rightarrow> deps \<Rightarrow> event \<Rightarrow> gen_result \<times> effect list" where
  "handleMeditationGuide cfg types d ev =
     (case validateInputs cfg types (topicOf ev) (languageOf ev) (effectiveDuration ev) of
        Some err \<Rightarrow> (failure err, [])
      | None \<Rightarrow>
          (let req = requestOf cfg types ev
           in case callLLM d req of
                Inl thrown \<Rightarrow> (failure (thrown_error thrown), [CallLLM req])
              | Inr llmResp \<Rightarrow>
                  if \<not> truthy (rs_success llmResp)
                  then (failure (if truthy (rs_error llmResp)
                                 then Upstream (rs_error llmResp)
                                 else Error LLM_FAILED),
                        [CallLLM req])
                  else (let meditationText = extractText llmResp
                        in if \<not> truthy meditationText
                           then (failure (Error EMPTY_CONTENT), [CallLLM req])
                           else (let (audioData, fx) =
                                       (if voiceOf ev \<and> languageOf ev = js ''zh''
                                        then voicePhase d (quickOf ev) (ev_style ev)
                                               (topicOf ev) (optionsOf ev) meditationText
                                        else (None, []))
                                 in (assemble types (topicOf ev) (ev_style ev)
                                       (effectiveDuration ev) (quickOf ev) (languageOf ev)
                                       meditationText audioData,
                                     CallLLM req # fx)))))"

text \<open>
  The router as deployed: \<open>synthesizeSpeech\<close> is the export of utils/tts.js, called
  with no second argument, at some state of its registry.
\<close>

definition tts_module :: "tts_env \<Rightarrow> registry \<Rightarrow> jsval \<Rightarrow> (tts_error + jsval) \<times> net_call list"
  where
  "tts_module env reg arg =
     (let (outcome, net, reg') = awaitSynthesizeSpeech env arg no_opts reg
      in (outcome, net))"


subsection \<open>\<open>handleBatchGeneration\<close>\<close>

text \<open>An element of \<open>topics\<close>: a topic name or an object of request properties.\<close>

datatype topic_spec = TopicName jsstring | TopicObject event

record batch_event =
  be_topics :: "topic_spec list option"
  be_baseOptions :: "event option"

record batch_item =
  bi_topic :: "jsstring option"
  bi_success :: bool
  bi_data :: "gen_data option"
  bi_error :: "gen_error option"

record batch_data =
  bd_total :: nat
  bd_successful :: nat
  bd_failed :: nat
  bd_results :: "batch_item list"

record batch_result =
  br_success :: bool
  br_data :: "batch_data option"
  br_error :: "gen_error option"

text \<open>\<open>{ ...a, ...b }\<close>: a property of \<open>b\<close> wins over the same property of \<open>a\<close>.\<close>

definition spread :: "event \<Rightarrow> event \<Rightarrow> event" where
  "spread a b =
     \<lparr> ev_topic = (case ev_topic b of None \<Rightarrow> ev_topic a | Some x \<Rightarrow> Some x),
       ev_style = (case ev_style b of None \<Rightarrow> ev_style a | Some x \<Rightarrow> Some x),
       ev_duration = (case ev_duration b of None \<Rightarrow> ev_duration a | Some x \<Rightarrow> Some x),
       ev_language = (case ev_language b of None \<Rightarrow> ev_language a | Some x \<Rightarrow> Some x),
       ev_voice = (case ev_voice b of None \<Rightarrow> ev_voice a | Some x \<Rightarrow> Some x),
       ev_options = (case ev_options b of None \<Rightarrow> ev_options a | Some x \<Rightarrow> Some x) \<rparr>"

text \<open>Lines 342-344.\<close>

fun itemOptions :: "event \<Rightarrow> topic_spec \<Rightarrow> event" where
  "itemOptions baseOptions (TopicName t) = spread (empty_event\<lparr> ev_topic := Some t \<rparr>) baseOptions"
| "itemOptions baseOptions (TopicObject topicConfig) = spread baseOptions topicConfig"

text \<open>
  The loop over \<open>topics\<close>, with the results pushed so far. The \<open>catch\<close> of the loop
  body has nothing to catch here, \<open>handleMeditationGuide\<close> returning a result on every
  path.
\<close>

fun batchLoop ::
  "config \<Rightarrow> topic_config list \<Rightarrow> deps \<Rightarrow> event \<Rightarrow> topic_spec list \<Rightarrow> batch_item list
   \<Rightarrow> batch_item list \<times> effect list" where
  "batchLoop cfg types d baseOptions [] results = (results, [])"
| "batchLoop cfg types d baseOptions (topicConfig # rest) results =
     (let options = itemOptions baseOptions topicConfig;
          (result, fx) = handleMeditationGuide cfg types d options;
          item = \<lparr> bi_topic = ev_topic options,
                   bi_success = r_success result,
                   bi_data = (if r_success result then r_data result else None),
                   bi_error = r_error result \<rparr>;
          (final, fx') = batchLoop cfg types d baseOptions rest (results @ [item])
      in (final, fx @ fx'))"

text \<open>\<open>baseOptions = {}\<close> when the property is absent.\<close>

definition baseOptionsOf :: "batch_event \<Rightarrow> event" where
  "baseOptionsOf bev = (case be_baseOptions bev of None \<Rightarrow> empty_event | Some b \<Rightarrow> b)"

definition handleBatchGeneration ::
  "config \<Rightarrow> topic_config list \<Rightarrow> deps \<Rightarrow> batch_event \<Rightarrow> batch_result \<times> effect list" where
  "handleBatchGeneration cfg types d bev =
     (let baseOptions = baseOptionsOf bev
      in case be_topics bev of
           None \<Rightarrow>
             (\<lparr> br_success = False, br_data = None, br_error = Some (Error INVALID_TOPICS) \<rparr>, [])
         | Some topics \<Rightarrow>
             if topics = []
             then (\<lparr> br_success = False, br_data = None,
                     br_error = Some (Error INVALID_TOPICS) \<rparr>, [])
             else (let (results, fx) = batchLoop cfg types d baseOptions topics []
                   in (\<lparr> br_success = True,
                         br_data = Some
                           \<lparr> bd_total = length topics,
                             bd_successful = length (filter (\<lambda>r. bi_success r) results),
                             bd_failed = length (filter (\<lambda>r. \<not> bi_success r) results),
                             bd_results = results \<rparr>,
                         br_error = None \<rparr>, fx)))"


section \<open>Sample inputs\<close>

text \<open>
  A catalogue with one topic, a model client that answers every request with one
  sentence, and an environment of the speech module without object store, whose
  provider fails both attempts.
\<close>

definition sample_topic :: topic_config where
  "sample_topic =
     \<lparr> tc_id = js ''sleep'',
       tc_name = [(js ''zh'', [0x52A9, 0x7720, 0x51A5, 0x60F3]), (js ''en'', js ''Sleep Meditation'')],
       tc_description = [(js ''zh'', [0x52A9, 0x7720]), (js ''en'', js ''Guided sleep assistance'')],
       tc_recommendedStyles = [js ''healing'', js ''gentle''],
       tc_defaultDuration = Fin 30,
       tc_targetAudience = [(js ''zh'', []), (js ''en'', [])],
       tc_benefits = [(js ''zh'', []), (js ''en'', [])],
       tc_keywords = [js ''insomnia''],
       tc_techniques = None,
       tc_bestTime = None,
       tc_progression = None \<rparr>"

definition sample_config :: config where
  "sample_config = \<lparr> DEFAULT_MODEL = js ''hunyuan-lite'', ENABLE_ANALYTICS = False,
                     STRICT_TOPIC_VALIDATION = True \<rparr>"

definition sample_llm :: "llm_request \<Rightarrow> jsval + llm_response" where
  "sample_llm req =
     Inr \<lparr> rs_success = JBool True, rs_error = JUndefined,
           rs_text = JStr (js ''Breathe in slowly.''), rs_choice_content = JUndefined,
           rs_content = JStr (js ''Breathe in slowly.'') \<rparr>"

definition sample_env :: tts_env where
  "sample_env =
     \<lparr> parseNumber = (\<lambda>s. NaN),
       dedupKey = (\<lambda>opts s. s),
       objectKey = (\<lambda>req. q_Text req),
       defaultLang = js ''zh'',
       cosConfigured = False,
       headObject = (\<lambda>k. False),
       textToVoice = (\<lambda>req attempt. None),
       putObject = (\<lambda>k attempt. False),
       buildUrl = (\<lambda>k. k) \<rparr>"

definition sample_deps :: deps where
  "sample_deps = \<lparr> callLLM = sample_llm,
                   synthesizeSpeech_dep = tts_module sample_env empty_registry \<rparr>"


text \<open>
  A request for voice in Chinese; the same with the skip-audio flag set, and with a
  duration of 2, of 0 and of one and a half minutes; a speech function that hands the
  text of its argument object to the module; a model client whose answer has no text.
\<close>

definition sample_event :: event where
  "sample_event = empty_event\<lparr> ev_topic := Some (js ''sleep''), ev_voice := Some True \<rparr>"

definition sample_skip_event :: event where
  "sample_skip_event =
     sample_event\<lparr> ev_options := Some (empty_options\<lparr> op_skipAudio := Some True \<rparr>) \<rparr>"

definition sample_quick_event :: event where
  "sample_quick_event = sample_event\<lparr> ev_duration := Some (Fin 2) \<rparr>"

definition sample_zero_event :: event where
  "sample_zero_event = sample_event\<lparr> ev_duration := Some (Fin 0) \<rparr>"

definition sample_fraction_event :: event where
  "sample_fraction_event = sample_event\<lparr> ev_duration := Some (Fin (3 / 2)) \<rparr>"

definition sample_adapter :: "jsval \<Rightarrow> (tts_error + jsval) \<times> net_call list" where
  "sample_adapter arg = tts_module sample_env empty_registry (js_get arg (js ''text''))"

definition sample_empty_llm :: "llm_request \<Rightarrow> jsval + llm_response" where
  "sample_empty_llm req =
     Inr \<lparr> rs_success = JBool True, rs_error = JUndefined, rs_text = JStr [],
           rs_choice_content = JUndefined, rs_content = JUndefined \<rparr>"

definition sample_batch :: batch_event where
  "sample_batch = \<lparr> be_topics = Some [TopicName (js ''sleep''),
                                         TopicName (js ''invalid-topic-xyz'')],
                    be_baseOptions = None \<rparr>"

definition sample_text :: jsstring where
  "sample_text = js ''hi''"

definition sample_task :: task where
  "sample_task = \<lparr> task_id = 0, task_key = sample_text, task_text = sample_text,
                   task_opts = fullOpts (\<lambda>s. NaN) no_opts \<rparr>"


section \<open>The speech module: text check, normalisation, registry\<close>

lemma byteLength_replicate_ascii:
  "c < 0x80 \<Longrightarrow> byteLength (replicate n c) = n"
proof (induction n rule: less_induct)
  case (less n)
  show ?case
  proof (cases n)
    case 0
    then show ?thesis by simp
  next
    case (Suc m)
    show ?thesis
    proof (cases m)
      case 0
      with Suc less.prems show ?thesis by simp
    next
      case (Suc j)
      have "byteLength (replicate (Suc j) c) = Suc j"
        using less.IH[of "Suc j"] less.prems \<open>n = Suc m\<close> Suc by simp
      then show ?thesis using \<open>n = Suc m\<close> Suc less.prems by simp
    qed
  qed
qed

lemma synth_rejects_nonstring:
  "\<not> is_string v \<or> v = JStr [] \<Longrightarrow>
   synthesizeSpeech env v opts reg = (Rejected TextEmpty, reg)"
  by (auto simp: synthesizeSpeech_def)

lemma synth_rejects_long:
  "2000 < byteLength s \<Longrightarrow>
   synthesizeSpeech env (JStr s) opts reg = (Rejected (TextTooLong (byteLength s)), reg)"
  by (auto simp: synthesizeSpeech_def Let_def)

lemma synth_accepts:
  "s \<noteq> [] \<Longrightarrow> byteLength s \<le> 2000 \<Longrightarrow>
   fst (synthesizeSpeech env (JStr s) opts reg) \<noteq> Rejected e"
  by (auto simp: synthesizeSpeech_def Let_def split: option.splits)

text \<open>
  C5. \<open>synthesizeSpeech\<close> lets every non-empty string of at most 2000 UTF-8 bytes pass
  its checks. A string of more than 2000 bytes is rejected with the length error, and a
  value that is not a string, or the empty string, with the empty-text error; in both
  cases no network call is made and the registry is left as it was.
\<close>

theorem synthesizeSpeech_text_check:
  "(s \<noteq> [] \<and> byteLength s \<le> 2000 \<longrightarrow>
      (\<forall>e. fst (synthesizeSpeech env (JStr s) opts reg) \<noteq> Rejected e))
   \<and> (2000 < byteLength s \<longrightarrow>
      awaitSynthesizeSpeech env (JStr s) opts reg = (Inl (TextTooLong (byteLength s)), [], reg))
   \<and> (\<not> is_string v \<or> v = JStr [] \<longrightarrow>
      awaitSynthesizeSpeech env v opts reg = (Inl TextEmpty, [], reg))"
  using synth_accepts[of s env opts reg] synth_rejects_long[of s env opts reg]
    synth_rejects_nonstring[of v env opts reg]
  by (auto simp: awaitSynthesizeSpeech_def)

theorem synthesizeSpeech_text_check_witness:
  "(\<forall>e. fst (synthesizeSpeech sample_env (JStr (replicate 2000 0x61)) no_opts empty_registry)
          \<noteq> Rejected e)
   \<and> awaitSynthesizeSpeech sample_env (JStr (replicate 2001 0x61)) no_opts empty_registry
       = (Inl (TextTooLong 2001), [], empty_registry)
   \<and> awaitSynthesizeSpeech sample_env (JStr []) no_opts empty_registry
       = (Inl TextEmpty, [], empty_registry)
   \<and> awaitSynthesizeSpeech sample_env (JObj []) no_opts empty_registry
       = (Inl TextEmpty, [], empty_registry)"
proof -
  have l0: "byteLength (replicate 2000 0x61) = 2000"
    and l1: "byteLength (replicate 2001 0x61) = 2001"
    by (simp_all add: byteLength_replicate_ascii)
  have ne: "replicate 2000 (0x61 :: 16 word) \<noteq> []" by simp
  show ?thesis
    using synthesizeSpeech_text_check
            [where s = "replicate 2000 0x61" and env = sample_env and opts = no_opts
               and reg = empty_registry and v = "JStr []"]
          synthesizeSpeech_text_check
            [where s = "replicate 2001 0x61" and env = sample_env and opts = no_opts
               and reg = empty_registry and v = "JObj []"]
          l0 l1 ne
    by simp
qed

text \<open>
  C7. With no options at all, the normalised voice type is 1001 and the sample rate
  16000, but the normalised speed and volume are \<open>NaN\<close>: the fallbacks \<open>?? 0\<close> and
  \<open>?? 5\<close> never apply, unary plus having already turned the absent value into \<open>NaN\<close>.
\<close>

theorem fullOpts_absent_speed_volume:
  "fullOpts p no_opts =
     \<lparr> o_voiceType = JNum (Fin 1001), o_speed = JNum NaN, o_volume = JNum NaN,
       o_sampleRate = JNum (Fin 16000), o_lang = JStr (js ''zh''), o_hq = JUndefined \<rparr>"
  by (simp add: fullOpts_def no_opts_def unary_plus_def js_nullish_def clamp_def js_or_def)

text \<open>A speed that converts to a number is clamped into the interval.\<close>

lemma fullOpts_numeric_speed:
  "to_number p (o_speed opts) = Fin r \<Longrightarrow>
   o_speed (fullOpts p opts) = JNum (Fin (max (- 2) (min 2 r)))"
  by (simp add: fullOpts_def Let_def unary_plus_def js_nullish_def clamp_def)

lemma fullOpts_numeric_volume:
  "to_number p (o_volume opts) = Fin r \<Longrightarrow>
   o_volume (fullOpts p opts) = JNum (Fin (max 0 (min 10 r)))"
  by (simp add: fullOpts_def Let_def unary_plus_def js_nullish_def clamp_def)


lemma reg_inv_D1:
  "reg_inv reg \<Longrightarrow> pending reg k = Some t \<Longrightarrow> t \<in> set (inflight reg) \<and> task_key t = k"
  by (simp add: reg_inv_def)

lemma reg_inv_D2:
  "reg_inv reg \<Longrightarrow> t \<in> set (inflight reg) \<Longrightarrow> pending reg (task_key t) = Some t"
  by (simp add: reg_inv_def)

lemma reg_inv_D3: "reg_inv reg \<Longrightarrow> distinct (map task_key (inflight reg))"
  by (simp add: reg_inv_def)

lemma reg_inv_D4: "reg_inv reg \<Longrightarrow> t \<in> set (inflight reg) \<Longrightarrow> task_id t < nextTask reg"
  by (simp add: reg_inv_def)

lemma reg_inv_D5: "reg_inv reg \<Longrightarrow> distinct (map task_id (inflight reg))"
  by (simp add: reg_inv_def)

lemma reg_inv_empty: "reg_inv empty_registry"
  by (simp add: reg_inv_def empty_registry_def)

lemma free_key_not_inflight:
  assumes inv: "reg_inv reg" and free: "pending reg k = None"
  shows "k \<notin> task_key ` set (inflight reg)"
proof
  assume "k \<in> task_key ` set (inflight reg)"
  then obtain u where u: "u \<in> set (inflight reg)" "task_key u = k" by blast
  with reg_inv_D2[OF inv u(1)] have "pending reg k = Some u" by simp
  with free show False by simp
qed

lemma reg_inv_register:
  assumes inv: "reg_inv reg" and free: "pending reg k = None"
    and key: "task_key t = k" and tid: "task_id t = nextTask reg"
  shows "reg_inv (reg\<lparr> pending := (pending reg)(k \<mapsto> t), inflight := t # inflight reg,
                        nextTask := Suc (nextTask reg) \<rparr>)"
    (is "reg_inv ?reg'")
proof -
  note notin = free_key_not_inflight[OF inv free]
  have p': "pending ?reg' = (pending reg)(k \<mapsto> t)" by simp
  have i': "inflight ?reg' = t # inflight reg" by simp
  have n': "nextTask ?reg' = Suc (nextTask reg)" by simp
  have idnotin: "task_id t \<notin> task_id ` set (inflight reg)"
  proof
    assume "task_id t \<in> task_id ` set (inflight reg)"
    then obtain u where u: "u \<in> set (inflight reg)" "task_id u = task_id t" by force
    from reg_inv_D4[OF inv u(1)] u(2) tid show False by simp
  qed
  have c1: "\<forall>k' t'. pending ?reg' k' = Some t' \<longrightarrow> t' \<in> set (inflight ?reg') \<and> task_key t' = k'"
  proof (intro allI impI)
    fix k' t' assume h: "pending ?reg' k' = Some t'"
    show "t' \<in> set (inflight ?reg') \<and> task_key t' = k'"
    proof (cases "k' = k")
      case True
      with h have "t' = t" by simp
      with True key show ?thesis by simp
    next
      case False
      with h have "pending reg k' = Some t'" by simp
      from reg_inv_D1[OF inv this] show ?thesis by simp
    qed
  qed
  have c2: "\<forall>u \<in> set (inflight ?reg'). pending ?reg' (task_key u) = Some u"
  proof
    fix u assume "u \<in> set (inflight ?reg')"
    then have "u = t \<or> u \<in> set (inflight reg)" by simp
    then show "pending ?reg' (task_key u) = Some u"
    proof
      assume "u = t" with key show ?thesis by simp
    next
      assume m: "u \<in> set (inflight reg)"
      then have "task_key u \<noteq> k" using notin by blast
      with reg_inv_D2[OF inv m] show ?thesis by simp
    qed
  qed
  have c3: "distinct (map task_key (inflight ?reg'))"
    using reg_inv_D3[OF inv] notin key by simp
  have c4: "\<forall>u \<in> set (inflight ?reg'). task_id u < nextTask ?reg'"
  proof
    fix u assume "u \<in> set (inflight ?reg')"
    then have "u = t \<or> u \<in> set (inflight reg)" by simp
    then show "task_id u < nextTask ?reg'"
    proof
      assume "u = t" with tid show ?thesis by simp
    next
      assume "u \<in> set (inflight reg)"
      from reg_inv_D4[OF inv this] show ?thesis by simp
    qed
  qed
  have c5: "distinct (map task_id (inflight ?reg'))"
    using reg_inv_D5[OF inv] idnotin by simp
  show ?thesis
    unfolding reg_inv_def using c1 c2 c3 c4 c5 by blast
qed

lemma reg_inv_call:
  assumes "reg_inv reg"
  shows "reg_inv (snd (synthesizeSpeech env v opts reg))"
  using assms
  by (simp add: synthesizeSpeech_def Let_def reg_inv_register split: option.splits)

lemma reg_inv_settle:
  assumes inv: "reg_inv reg" and mem: "t \<in> set (inflight reg)"
  shows "reg_inv (settle t reg)"
proof -
  have same: "\<And>u. u \<in> set (inflight reg) \<Longrightarrow> task_key u = task_key t \<Longrightarrow> u = t"
  proof -
    fix u assume "u \<in> set (inflight reg)" "task_key u = task_key t"
    then have "pending reg (task_key t) = Some u" using reg_inv_D2[OF inv, of u] by simp
    moreover have "pending reg (task_key t) = Some t" using reg_inv_D2[OF inv mem] .
    ultimately show "u = t" by simp
  qed
  have p': "pending (settle t reg) = (pending reg)(task_key t := None)"
    by (simp add: settle_def)
  have i': "inflight (settle t reg) = removeAll t (inflight reg)"
    by (simp add: settle_def)
  have n': "nextTask (settle t reg) = nextTask reg"
    by (simp add: settle_def)
  have c1: "\<forall>k u. pending (settle t reg) k = Some u \<longrightarrow>
              u \<in> set (inflight (settle t reg)) \<and> task_key u = k"
  proof (intro allI impI)
    fix k u assume h: "pending (settle t reg) k = Some u"
    then have k: "k \<noteq> task_key t" and p: "pending reg k = Some u"
      unfolding p' by (simp_all split: if_splits)
    from reg_inv_D1[OF inv p] have u: "u \<in> set (inflight reg)" "task_key u = k" by simp_all
    with k have "u \<noteq> t" by blast
    with u show "u \<in> set (inflight (settle t reg)) \<and> task_key u = k" unfolding i' by simp
  qed
  have c2: "\<forall>u \<in> set (inflight (settle t reg)). pending (settle t reg) (task_key u) = Some u"
  proof
    fix u assume "u \<in> set (inflight (settle t reg))"
    then have u: "u \<in> set (inflight reg)" "u \<noteq> t" unfolding i' by simp_all
    then have "task_key u \<noteq> task_key t" using same by blast
    moreover have "pending reg (task_key u) = Some u" using reg_inv_D2[OF inv u(1)] .
    ultimately show "pending (settle t reg) (task_key u) = Some u" unfolding p' by simp
  qed
  have c3: "distinct (map task_key (inflight (settle t reg)))"
    unfolding i' using reg_inv_D3[OF inv]
    by (simp add: removeAll_filter_not_eq distinct_map_filter)
  have c4: "\<forall>u \<in> set (inflight (settle t reg)). task_id u < nextTask (settle t reg)"
    unfolding i' n' using reg_inv_D4[OF inv] by simp
  have c5: "distinct (map task_id (inflight (settle t reg)))"
    unfolding i' using reg_inv_D5[OF inv]
    by (simp add: removeAll_filter_not_eq distinct_map_filter)
  show ?thesis
    unfolding reg_inv_def using c1 c2 c3 c4 c5 by blast
qed

lemma find_inflight:
  assumes inv: "reg_inv reg" and mem: "t \<in> set (inflight reg)"
  shows "find (\<lambda>u. task_id u = task_id t) (inflight reg) = Some t"
proof (cases "find (\<lambda>u. task_id u = task_id t) (inflight reg)")
  case None
  with mem show ?thesis by (force simp: find_None_iff)
next
  case (Some u)
  then have u: "u \<in> set (inflight reg)" "task_id u = task_id t"
    by (auto simp: find_Some_iff)
  have "inj_on task_id (set (inflight reg))"
    using reg_inv_D5[OF inv] by (simp add: distinct_map)
  with u mem have "u = t" by (simp add: inj_on_def)
  with Some show ?thesis by simp
qed

lemma reg_inv_step: "reg_inv reg \<Longrightarrow> reg_inv (reg_step env reg ev)"
proof (cases ev)
  case (EvCall v opts)
  assume "reg_inv reg"
  then show ?thesis using EvCall by (simp add: reg_inv_call)
next
  case (EvSettle i)
  assume inv: "reg_inv reg"
  show ?thesis
  proof (cases "find (\<lambda>t. task_id t = i) (inflight reg)")
    case None
    then show ?thesis using EvSettle inv by simp
  next
    case (Some t)
    then have "t \<in> set (inflight reg)"
      by (auto simp: find_Some_iff)
    then show ?thesis using EvSettle Some inv by (simp add: reg_inv_settle)
  qed
qed

lemma reg_inv_foldl: "reg_inv reg \<Longrightarrow> reg_inv (foldl (reg_step env) reg evs)"
  by (induction evs arbitrary: reg) (simp_all add: reg_inv_step)

lemma reg_inv_run: "reg_inv (reg_run env evs)"
  by (simp add: reg_run_def reg_inv_foldl reg_inv_empty)

lemma reg_run_snoc: "reg_run env (evs @ [ev]) = reg_step env (reg_run env evs) ev"
  by (simp add: reg_run_def)

lemma distinct_map_filter_le1:
  "distinct (map f xs) \<Longrightarrow> length (filter (\<lambda>x. f x = k) xs) \<le> 1"
  by (induction xs) (auto simp: filter_empty_conv image_iff)

lemma outstanding_le1: "reg_inv reg \<Longrightarrow> length (outstanding reg k) \<le> 1"
  using distinct_map_filter_le1[of task_key "inflight reg" k]
  by (simp add: reg_inv_def outstanding_def)

lemma outstanding_pending:
  assumes "reg_inv reg" "pending reg k = Some t"
  shows "outstanding reg k = [t]"
proof -
  have mem: "t \<in> set (outstanding reg k)"
    using reg_inv_D1[OF assms] by (simp add: outstanding_def)
  have "length (outstanding reg k) \<le> 1" using assms(1) by (rule outstanding_le1)
  with mem show ?thesis
    by (cases "outstanding reg k") auto
qed

lemma outstanding_none:
  assumes "reg_inv reg" "pending reg k = None"
  shows "outstanding reg k = []"
  using free_key_not_inflight[OF assms]
  by (auto simp: outstanding_def filter_empty_conv)

lemma synth_reuses:
  assumes "s \<noteq> []" "byteLength s \<le> 2000"
    and "pending reg (dedupKey env (fullOpts (parseNumber env) opts) s) = Some t"
  shows "synthesizeSpeech env (JStr s) opts reg = (Reused t, reg)"
  using assms by (simp add: synthesizeSpeech_def Let_def)

lemma synth_starts:
  assumes "s \<noteq> []" "byteLength s \<le> 2000"
    and "pending reg (dedupKey env (fullOpts (parseNumber env) opts) s) = None"
  shows "synthesizeSpeech env (JStr s) opts reg =
     (Started \<lparr> task_id = nextTask reg,
                task_key = dedupKey env (fullOpts (parseNumber env) opts) s,
                task_text = s, task_opts = fullOpts (parseNumber env) opts \<rparr>,
      reg\<lparr> pending := (pending reg)(dedupKey env (fullOpts (parseNumber env) opts) s \<mapsto>
               \<lparr> task_id = nextTask reg,
                 task_key = dedupKey env (fullOpts (parseNumber env) opts) s,
                 task_text = s, task_opts = fullOpts (parseNumber env) opts \<rparr>),
           inflight := \<lparr> task_id = nextTask reg,
                 task_key = dedupKey env (fullOpts (parseNumber env) opts) s,
                 task_text = s, task_opts = fullOpts (parseNumber env) opts \<rparr> # inflight reg,
           nextTask := Suc (nextTask reg) \<rparr>)"
  using assms by (simp add: synthesizeSpeech_def Let_def)

lemma await_clears_key:
  assumes inv: "reg_inv reg" and s: "s \<noteq> []" "byteLength s \<le> 2000"
  shows "pending (snd (snd (awaitSynthesizeSpeech env (JStr s) opts reg)))
           (dedupKey env (fullOpts (parseNumber env) opts) s) = None"
proof (cases "pending reg (dedupKey env (fullOpts (parseNumber env) opts) s)")
  case None
  show ?thesis
    unfolding awaitSynthesizeSpeech_def synth_starts[OF s None]
    by (simp add: settle_def split: prod.splits)
next
  case (Some t)
  from reg_inv_D1[OF inv Some]
  have "task_key t = dedupKey env (fullOpts (parseNumber env) opts) s" by simp
  then show ?thesis
    unfolding awaitSynthesizeSpeech_def synth_reuses[OF s Some]
    by (simp add: settle_def)
qed

lemma settle_clears_pending: "pending (settle t reg) (task_key t) = None"
  by (simp add: settle_def)

lemma settle_clears_outstanding:
  assumes inv: "reg_inv reg" and mem: "t \<in> set (inflight reg)"
  shows "outstanding (settle t reg) (task_key t) = []"
  using outstanding_none[OF reg_inv_settle[OF inv mem] settle_clears_pending] .

text \<open>
  C8. In every registry reached by calls of \<open>synthesizeSpeech\<close> and settlings of tasks,
  at most one task is in flight under any key. A call whose key is pending gets that
  very task back and starts nothing; a call whose key is free starts one new task.
  Settling a task removes its entry, whatever the outcome, so that the key is free
  again; awaiting a call to its end leaves the key free as well.
\<close>

theorem pending_registry_one_task_per_key:
  assumes reg: "reg = reg_run env evs"
    and s: "s \<noteq> []" "byteLength s \<le> 2000"
    and key: "cacheKey = dedupKey env (fullOpts (parseNumber env) opts) s"
  shows
    "(\<forall>k. length (outstanding reg k) \<le> 1)
     \<and> (\<forall>t. pending reg cacheKey = Some t \<longrightarrow>
            synthesizeSpeech env (JStr s) opts reg = (Reused t, reg)
            \<and> outstanding reg cacheKey = [t])
     \<and> (pending reg cacheKey = None \<longrightarrow>
            outstanding reg cacheKey = []
            \<and> (\<exists>t reg'. synthesizeSpeech env (JStr s) opts reg = (Started t, reg')
                  \<and> task_id t = nextTask reg \<and> t \<notin> set (inflight reg)
                  \<and> outstanding reg' cacheKey = [t]))
     \<and> (\<forall>t \<in> set (inflight reg).
            reg_run env (evs @ [EvSettle (task_id t)]) = settle t reg
            \<and> pending (settle t reg) (task_key t) = None
            \<and> outstanding (settle t reg) (task_key t) = [])
     \<and> pending (snd (snd (awaitSynthesizeSpeech env (JStr s) opts reg))) cacheKey = None"
proof -
  have inv: "reg_inv reg" unfolding reg by (rule reg_inv_run)
  have A: "\<forall>k. length (outstanding reg k) \<le> 1"
    using outstanding_le1[OF inv] by blast
  have B: "\<forall>t. pending reg cacheKey = Some t \<longrightarrow>
            synthesizeSpeech env (JStr s) opts reg = (Reused t, reg)
            \<and> outstanding reg cacheKey = [t]"
    using synth_reuses[OF s, of reg env opts] outstanding_pending[OF inv, of cacheKey]
    unfolding key by blast
  have C: "pending reg cacheKey = None \<longrightarrow>
            outstanding reg cacheKey = []
            \<and> (\<exists>t reg'. synthesizeSpeech env (JStr s) opts reg = (Started t, reg')
                  \<and> task_id t = nextTask reg \<and> t \<notin> set (inflight reg)
                  \<and> outstanding reg' cacheKey = [t])"
  proof
    assume free: "pending reg cacheKey = None"
    let ?t = "\<lparr> task_id = nextTask reg, task_key = cacheKey,
                task_text = s, task_opts = fullOpts (parseNumber env) opts \<rparr>"
    let ?reg' = "reg\<lparr> pending := (pending reg)(cacheKey \<mapsto> ?t),
                      inflight := ?t # inflight reg, nextTask := Suc (nextTask reg) \<rparr>"
    have st: "synthesizeSpeech env (JStr s) opts reg = (Started ?t, ?reg')"
      using synth_starts[OF s, of reg env opts] free unfolding key by simp
    have inv': "reg_inv ?reg'"
      by (rule reg_inv_register[OF inv free]) simp_all
    have out': "outstanding ?reg' cacheKey = [?t]"
      by (rule outstanding_pending[OF inv']) simp
    have fresh: "?t \<notin> set (inflight reg)"
    proof
      assume "?t \<in> set (inflight reg)"
      from reg_inv_D4[OF inv this] show False by simp
    qed
    show "outstanding reg cacheKey = []
            \<and> (\<exists>t reg'. synthesizeSpeech env (JStr s) opts reg = (Started t, reg')
                  \<and> task_id t = nextTask reg \<and> t \<notin> set (inflight reg)
                  \<and> outstanding reg' cacheKey = [t])"
      using outstanding_none[OF inv free] st out' fresh
      by (intro conjI exI[of _ ?t] exI[of _ ?reg']) simp_all
  qed
  have D: "\<forall>t \<in> set (inflight reg).
            reg_run env (evs @ [EvSettle (task_id t)]) = settle t reg
            \<and> pending (settle t reg) (task_key t) = None
            \<and> outstanding (settle t reg) (task_key t) = []"
  proof
    fix t assume mem: "t \<in> set (inflight reg)"
    have "reg_run env (evs @ [EvSettle (task_id t)]) = settle t reg"
      using find_inflight[OF inv mem] by (simp add: reg_run_snoc reg[symmetric])
    then show "reg_run env (evs @ [EvSettle (task_id t)]) = settle t reg
            \<and> pending (settle t reg) (task_key t) = None
            \<and> outstanding (settle t reg) (task_key t) = []"
      using settle_clears_pending[of t reg] settle_clears_outstanding[OF inv mem] by simp
  qed
  have E: "pending (snd (snd (awaitSynthesizeSpeech env (JStr s) opts reg))) cacheKey = None"
    unfolding key by (rule await_clears_key[OF inv s])
  from A B C D E show ?thesis by blast
qed


theorem pending_registry_one_task_per_key_witness:
  "sample_text \<noteq> [] \<and> byteLength sample_text \<le> 2000
   \<and> pending (reg_run sample_env [EvCall (JStr sample_text) no_opts]) sample_text = Some sample_task
   \<and> length (outstanding (reg_run sample_env [EvCall (JStr sample_text) no_opts]) sample_text) \<le> 1
   \<and> synthesizeSpeech sample_env (JStr sample_text) no_opts
         (reg_run sample_env [EvCall (JStr sample_text) no_opts])
       = (Reused sample_task, reg_run sample_env [EvCall (JStr sample_text) no_opts])
   \<and> outstanding (reg_run sample_env [EvCall (JStr sample_text) no_opts]) sample_text
       = [sample_task]
   \<and> reg_run sample_env ([EvCall (JStr sample_text) no_opts] @ [EvSettle (task_id sample_task)])
       = settle sample_task (reg_run sample_env [EvCall (JStr sample_text) no_opts])
   \<and> pending (settle sample_task (reg_run sample_env [EvCall (JStr sample_text) no_opts]))
         (task_key sample_task) = None
   \<and> pending (snd (snd (awaitSynthesizeSpeech sample_env (JStr sample_text) no_opts
         (reg_run sample_env [EvCall (JStr sample_text) no_opts])))) sample_text = None"
proof -
  let ?R = "reg_run sample_env [EvCall (JStr sample_text) no_opts]"
  have h1: "sample_text \<noteq> []" by code_simp
  have h2: "byteLength sample_text \<le> 2000" by code_simp
  have k: "dedupKey sample_env (fullOpts (parseNumber sample_env) no_opts) sample_text = sample_text"
    by (simp add: sample_env_def)
  have p: "pending ?R sample_text = Some sample_task" by code_simp
  have m: "sample_task \<in> set (inflight ?R)" by code_simp
  have tk: "task_key sample_task = sample_text" by (simp add: sample_task_def)
  note th = pending_registry_one_task_per_key
              [OF refl h1 h2 refl, where env = sample_env and evs = "[EvCall (JStr sample_text) no_opts]"
                 and opts = no_opts]
  show ?thesis
    using th h1 h2 p m tk unfolding k by auto
qed



section \<open>The router\<close>

lemma tts_module_rejects_object:
  "tts_module env reg (JObj fs) = (Inl TextEmpty, [])"
  by (simp add: tts_module_def awaitSynthesizeSpeech_def synth_rejects_nonstring)

lemma speechArg_object: "\<exists>fs. speechArg quick style topic options mt = JObj fs"
  by (simp add: speechArg_def Let_def)

lemma voicePhase_effects:
  "snd (voicePhase d quick style topic options mt)
     = CallSynthesizeSpeech (speechArg quick style topic options mt)
       # map Net (snd (synthesizeSpeech_dep d (speechArg quick style topic options mt)))"
  by (simp add: voicePhase_def Let_def split: prod.splits)

lemma voicePhase_throws:
  "fst (synthesizeSpeech_dep d (speechArg quick style topic options mt)) = Inl e \<Longrightarrow>
   fst (voicePhase d quick style topic options mt) = None"
  by (simp add: voicePhase_def Let_def case_prod_beta)

lemma voicePhase_no_url:
  "fst (synthesizeSpeech_dep d (speechArg quick style topic options mt)) = Inr v \<Longrightarrow>
   \<not> truthy (js_get v (js ''success'')) \<Longrightarrow> \<not> truthy (js_get v (js ''audioUrl'')) \<Longrightarrow>
   fst (voicePhase d quick style topic options mt) = None"
  by (simp add: voicePhase_def Let_def case_prod_beta)

lemma voicePhase_deployed:
  "voicePhase \<lparr> callLLM = llm, synthesizeSpeech_dep = tts_module env reg \<rparr>
      quick style topic options mt
   = (None, [CallSynthesizeSpeech (speechArg quick style topic options mt)])"
proof -
  obtain fs where fs: "speechArg quick style topic options mt = JObj fs"
    using speechArg_object by blast
  show ?thesis
    by (simp add: voicePhase_def Let_def fs tts_module_rejects_object)
qed

lemma assemble_success:
  "r_success (assemble types topic style duration quick language mt audio) \<Longrightarrow>
   \<exists>s dat. mt = JStr s
      \<and> r_data (assemble types topic style duration quick language mt audio) = Some dat
      \<and> d_text dat = JStr s \<and> d_audio dat = audio"
  by (cases mt) (simp_all add: assemble_def Let_def failure_def)

lemma assemble_string:
  "\<exists>dat. assemble types topic style duration quick language (JStr s) audio
      = \<lparr> r_success = True, r_data = Some dat, r_error = None \<rparr>
      \<and> d_text dat = JStr s \<and> d_audio dat = audio
      \<and> md_mode (d_metadata dat) = (if quick then Quick else Standard)
      \<and> md_duration (d_metadata dat) = duration"
  by (simp add: assemble_def Let_def)

lemma handle_invalid:
  "validateInputs cfg types (topicOf ev) (languageOf ev) (effectiveDuration ev) = Some err \<Longrightarrow>
   handleMeditationGuide cfg types d ev = (failure err, [])"
  by (simp add: handleMeditationGuide_def)

lemma handle_llm_failed:
  assumes "validateInputs cfg types (topicOf ev) (languageOf ev) (effectiveDuration ev) = None"
    and "(\<exists>thrown. callLLM d (requestOf cfg types ev) = Inl thrown)
         \<or> (\<exists>resp. callLLM d (requestOf cfg types ev) = Inr resp
               \<and> (\<not> truthy (rs_success resp) \<or> \<not> truthy (extractText resp)))"
  shows "\<exists>err. handleMeditationGuide cfg types d ev
           = (failure err, [CallLLM (requestOf cfg types ev)])"
  using assms
  by (auto simp: handleMeditationGuide_def Let_def)

lemma handle_empty_text:
  assumes "validateInputs cfg types (topicOf ev) (languageOf ev) (effectiveDuration ev) = None"
    and "callLLM d (requestOf cfg types ev) = Inr resp"
    and "truthy (rs_success resp)" and "\<not> truthy (extractText resp)"
  shows "handleMeditationGuide cfg types d ev
           = (failure (Error EMPTY_CONTENT), [CallLLM (requestOf cfg types ev)])"
  using assms
  by (simp add: handleMeditationGuide_def Let_def)

lemma handle_text_ok:
  assumes "validateInputs cfg types (topicOf ev) (languageOf ev) (effectiveDuration ev) = None"
    and "callLLM d (requestOf cfg types ev) = Inr resp"
    and "truthy (rs_success resp)" and "truthy (extractText resp)"
  shows "handleMeditationGuide cfg types d ev =
     (if voiceOf ev \<and> languageOf ev = js ''zh''
      then (assemble types (topicOf ev) (ev_style ev) (effectiveDuration ev) (quickOf ev)
                  (languageOf ev) (extractText resp)
                  (fst (voicePhase d (quickOf ev) (ev_style ev) (topicOf ev) (optionsOf ev)
                          (extractText resp))),
                CallLLM (requestOf cfg types ev) #
                  snd (voicePhase d (quickOf ev) (ev_style ev) (topicOf ev) (optionsOf ev)
                          (extractText resp)))
      else (assemble types (topicOf ev) (ev_style ev) (effectiveDuration ev) (quickOf ev)
                  (languageOf ev) (extractText resp) None,
                [CallLLM (requestOf cfg types ev)]))"
  using assms
  by (simp add: handleMeditationGuide_def Let_def split: prod.splits)

lemma handle_cases:
  obtains
    (invalid) err where
      "validateInputs cfg types (topicOf ev) (languageOf ev) (effectiveDuration ev) = Some err"
      "handleMeditationGuide cfg types d ev = (failure err, [])"
  | (failed) err where
      "validateInputs cfg types (topicOf ev) (languageOf ev) (effectiveDuration ev) = None"
      "handleMeditationGuide cfg types d ev = (failure err, [CallLLM (requestOf cfg types ev)])"
      "(\<exists>thrown. callLLM d (requestOf cfg types ev) = Inl thrown)
         \<or> (\<exists>resp. callLLM d (requestOf cfg types ev) = Inr resp
               \<and> (\<not> truthy (rs_success resp) \<or> \<not> truthy (extractText resp)))"
  | (ok) resp where
      "validateInputs cfg types (topicOf ev) (languageOf ev) (effectiveDuration ev) = None"
      "callLLM d (requestOf cfg types ev) = Inr resp"
      "truthy (rs_success resp)" "truthy (extractText resp)"
proof (cases "validateInputs cfg types (topicOf ev) (languageOf ev) (effectiveDuration ev)")
  case (Some err)
  then show ?thesis using invalid handle_invalid by blast
next
  case None
  show ?thesis
  proof (cases "callLLM d (requestOf cfg types ev)")
    case (Inl thrown)
    then show ?thesis using failed[OF None] handle_llm_failed[OF None, of d] by blast
  next
    case (Inr resp)
    show ?thesis
    proof (cases "truthy (rs_success resp) \<and> truthy (extractText resp)")
      case True
      then show ?thesis using ok[OF None Inr] by blast
    next
      case False
      then show ?thesis using failed[OF None] handle_llm_failed[OF None, of d] Inr by blast
    qed
  qed
qed

lemma failure_not_success: "\<not> r_success (failure err)"
  by (simp add: failure_def)

lemma handle_ok_result:
  assumes "validateInputs cfg types (topicOf ev) (languageOf ev) (effectiveDuration ev) = None"
    and "callLLM d (requestOf cfg types ev) = Inr resp"
    and "truthy (rs_success resp)" and "truthy (extractText resp)"
  shows "\<exists>audio. fst (handleMeditationGuide cfg types d ev) =
           assemble types (topicOf ev) (ev_style ev) (effectiveDuration ev) (quickOf ev)
             (languageOf ev) (extractText resp) audio
         \<and> (audio = None \<or>
             (voiceOf ev \<and> languageOf ev = js ''zh''
              \<and> audio = fst (voicePhase d (quickOf ev) (ev_style ev) (topicOf ev) (optionsOf ev)
                          (extractText resp))))"
proof (cases "voiceOf ev \<and> languageOf ev = js ''zh''")
  case True
  have "fst (handleMeditationGuide cfg types d ev) =
           assemble types (topicOf ev) (ev_style ev) (effectiveDuration ev) (quickOf ev)
             (languageOf ev) (extractText resp)
             (fst (voicePhase d (quickOf ev) (ev_style ev) (topicOf ev) (optionsOf ev)
                          (extractText resp)))"
    unfolding handle_text_ok[OF assms] using True by simp
  with True show ?thesis by blast
next
  case False
  have "fst (handleMeditationGuide cfg types d ev) =
           assemble types (topicOf ev) (ev_style ev) (effectiveDuration ev) (quickOf ev)
             (languageOf ev) (extractText resp) None"
    unfolding handle_text_ok[OF assms] using False by auto
  then show ?thesis by blast
qed

lemma handle_success:
  assumes "validateInputs cfg types (topicOf ev) (languageOf ev) (effectiveDuration ev) = None"
    and "callLLM d (requestOf cfg types ev) = Inr resp"
    and "truthy (rs_success resp)" and "extractText resp = JStr s" and "s \<noteq> []"
  shows "r_success (fst (handleMeditationGuide cfg types d ev))"
proof -
  have t: "truthy (extractText resp)" using assms(4,5) by simp
  obtain audio where "fst (handleMeditationGuide cfg types d ev) =
           assemble types (topicOf ev) (ev_style ev) (effectiveDuration ev) (quickOf ev)
             (languageOf ev) (JStr s) audio"
    using handle_ok_result[OF assms(1-3) t] unfolding assms(4) by blast
  then show ?thesis
    using assemble_string[of types "topicOf ev" "ev_style ev" "effectiveDuration ev"
            "quickOf ev" "languageOf ev" s audio]
    by auto
qed

lemma request_fields:
  "rq_system (requestOf cfg types ev)
     = (if quickOf ev then quick_system_prompt else standard_system_prompt)"
  "rq_temperature (requestOf cfg types ev)
     = (if quickOf ev then lit (6 / 10)
        else num_or (op_temperature (optionsOf ev)) (lit (7 / 10)))"
  "rq_maxTokens (requestOf cfg types ev)
     = calculateMaxTokens (effectiveDuration ev) (quickOf ev)"
  by (simp_all add: requestOf_def llmRequest_def)

lemma speechArg_text:
  "js_get (speechArg quick style topic options mt) (js ''text'') = mt"
  by (simp add: speechArg_def Let_def)

text \<open>The sample model client and its answer.\<close>

lemma sample_llm_answer:
  "sample_llm req =
     Inr \<lparr> rs_success = JBool True, rs_error = JUndefined,
           rs_text = JStr (js ''Breathe in slowly.''), rs_choice_content = JUndefined,
           rs_content = JStr (js ''Breathe in slowly.'') \<rparr>"
  "truthy (rs_success \<lparr> rs_success = JBool True, rs_error = JUndefined,
           rs_text = JStr (js ''Breathe in slowly.''), rs_choice_content = JUndefined,
           rs_content = JStr (js ''Breathe in slowly.'') \<rparr>)"
  "extractText \<lparr> rs_success = JBool True, rs_error = JUndefined,
           rs_text = JStr (js ''Breathe in slowly.''), rs_choice_content = JUndefined,
           rs_content = JStr (js ''Breathe in slowly.'') \<rparr> = JStr (js ''Breathe in slowly.'')"
  "js ''Breathe in slowly.'' \<noteq> []"
  by (simp_all add: sample_llm_def extractText_def js_or_def js_def)

lemma sample_deps_fields:
  "callLLM sample_deps = sample_llm"
  "sample_deps = \<lparr> callLLM = sample_llm,
                   synthesizeSpeech_dep = tts_module sample_env empty_registry \<rparr>"
  by (simp_all add: sample_deps_def)

text \<open>
  C1. With the speech module as deployed, every argument \<open>handleMeditationGuide\<close>
  passes to \<open>synthesizeSpeech\<close> is an object, not a string, and the module rejects it at
  its type check without any network call; so every successful result has a null
  \<open>audio\<close>. A request for voice in Chinese that gets as far as the voice phase
  (validation passed, the model answered with a text) does make that call.
\<close>

theorem handleMeditationGuide_audio_always_null:
  "(\<forall>arg. CallSynthesizeSpeech arg \<in> set (snd (handleMeditationGuide cfg types
           \<lparr> callLLM = llm, synthesizeSpeech_dep = tts_module env reg \<rparr> ev)) \<longrightarrow>
        (\<exists>fs. arg = JObj fs) \<and> \<not> is_string arg \<and> tts_module env reg arg = (Inl TextEmpty, []))
   \<and> (r_success (fst (handleMeditationGuide cfg types
           \<lparr> callLLM = llm, synthesizeSpeech_dep = tts_module env reg \<rparr> ev)) \<longrightarrow>
        (\<exists>dat. r_data (fst (handleMeditationGuide cfg types
           \<lparr> callLLM = llm, synthesizeSpeech_dep = tts_module env reg \<rparr> ev)) = Some dat
           \<and> d_audio dat = None))
   \<and> (validateInputs cfg types (topicOf ev) (languageOf ev) (effectiveDuration ev) = None
        \<and> llm (requestOf cfg types ev) = Inr resp
        \<and> truthy (rs_success resp) \<and> truthy (extractText resp)
        \<and> voiceOf ev \<and> languageOf ev = js ''zh'' \<longrightarrow>
        (\<exists>fs. CallSynthesizeSpeech (JObj fs) \<in> set (snd (handleMeditationGuide cfg types
           \<lparr> callLLM = llm, synthesizeSpeech_dep = tts_module env reg \<rparr> ev))))"
  (is "?A \<and> ?B \<and> ?C")
proof -
  let ?d = "\<lparr> callLLM = llm, synthesizeSpeech_dep = tts_module env reg \<rparr>"
  show ?thesis
  proof (cases rule: handle_cases[where cfg=cfg and types=types and ev=ev and d="?d"])
    case (invalid err)
    then show ?thesis by (simp add: failure_not_success)
  next
    case (failed err)
    have c: ?C using failed(3) by auto
    from failed(2) have "?A \<and> ?B" by (simp add: failure_not_success)
    with c show ?thesis by blast
  next
    case (ok r)
    obtain fs where fs: "speechArg (quickOf ev) (ev_style ev) (topicOf ev) (optionsOf ev)
        (extractText r) = JObj fs"
      using speechArg_object by blast
    have vp: "voicePhase ?d (quickOf ev) (ev_style ev) (topicOf ev) (optionsOf ev)
        (extractText r) = (None, [CallSynthesizeSpeech (JObj fs)])"
      using voicePhase_deployed[of llm env reg] fs by simp
    note h = handle_text_ok[OF ok]
    show ?thesis
    proof (cases "voiceOf ev \<and> languageOf ev = js ''zh''")
      case True
      with h vp have eq: "handleMeditationGuide cfg types ?d ev =
          (assemble types (topicOf ev) (ev_style ev) (effectiveDuration ev) (quickOf ev)
             (languageOf ev) (extractText r) None,
           [CallLLM (requestOf cfg types ev), CallSynthesizeSpeech (JObj fs)])" by simp
      have a: ?A unfolding eq by (simp add: tts_module_rejects_object)
      have b: ?B unfolding eq using assemble_success by fastforce
      have c: ?C unfolding eq by simp
      from a b c show ?thesis by blast
    next
      case False
      with h have eq: "handleMeditationGuide cfg types ?d ev =
          (assemble types (topicOf ev) (ev_style ev) (effectiveDuration ev) (quickOf ev)
             (languageOf ev) (extractText r) None,
           [CallLLM (requestOf cfg types ev)])" by simp
      have a: ?A unfolding eq by simp
      have b: ?B unfolding eq using assemble_success by fastforce
      have c: ?C using False by blast
      from a b c show ?thesis by blast
    qed
  qed
qed

theorem handleMeditationGuide_audio_always_null_witness:
  "r_success (fst (handleMeditationGuide sample_config [sample_topic]
       \<lparr> callLLM = sample_llm, synthesizeSpeech_dep = tts_module sample_env empty_registry \<rparr>
       sample_event))
   \<and> validateInputs sample_config [sample_topic] (topicOf sample_event)
         (languageOf sample_event) (effectiveDuration sample_event) = None
   \<and> voiceOf sample_event \<and> languageOf sample_event = js ''zh''
   \<and> (\<exists>dat. r_data (fst (handleMeditationGuide sample_config [sample_topic]
          \<lparr> callLLM = sample_llm, synthesizeSpeech_dep = tts_module sample_env empty_registry \<rparr>
          sample_event)) = Some dat \<and> d_audio dat = None)
   \<and> (\<exists>fs. CallSynthesizeSpeech (JObj fs) \<in> set (snd (handleMeditationGuide sample_config
          [sample_topic]
          \<lparr> callLLM = sample_llm, synthesizeSpeech_dep = tts_module sample_env empty_registry \<rparr>
          sample_event)))"
proof -
  have v: "voiceOf sample_event \<and> languageOf sample_event = js ''zh''"
    by code_simp
  have i: "validateInputs sample_config [sample_topic] (topicOf sample_event)
         (languageOf sample_event) (effectiveDuration sample_event) = None"
    by code_simp
  let ?r = "\<lparr> rs_success = JBool True, rs_error = JUndefined,
           rs_text = JStr (js ''Breathe in slowly.''), rs_choice_content = JUndefined,
           rs_content = JStr (js ''Breathe in slowly.'') \<rparr>"
  have l: "sample_llm (requestOf sample_config [sample_topic] sample_event) = Inr ?r"
    by (rule sample_llm_answer(1))
  have t: "truthy (rs_success ?r) \<and> truthy (extractText ?r)"
    using sample_llm_answer(2,3,4) by simp
  have s: "r_success (fst (handleMeditationGuide sample_config [sample_topic]
       \<lparr> callLLM = sample_llm, synthesizeSpeech_dep = tts_module sample_env empty_registry \<rparr>
       sample_event))"
    by (rule handle_success[OF i _ sample_llm_answer(2,3,4)]) (simp add: sample_llm_answer(1))
  show ?thesis
    using handleMeditationGuide_audio_always_null
            [where cfg = sample_config and types = "[sample_topic]" and llm = sample_llm
               and env = sample_env and reg = empty_registry and ev = sample_event
               and resp = ?r]
          s v i l t
    by blast
qed


text \<open>
  C3. When validation passes, the model client returns a successful response whose text
  is a non-empty string, and the speech call fails (it throws, as after two failed
  attempts, or it resolves to an object with neither \<open>success\<close> nor \<open>audioUrl\<close>), the
  result is a success carrying that text and a null \<open>audio\<close>.
\<close>

theorem synthesis_failure_keeps_text:
  assumes valid: "validateInputs cfg types (topicOf ev) (languageOf ev) (effectiveDuration ev) = None"
    and llm: "callLLM d (requestOf cfg types ev) = Inr resp" "truthy (rs_success resp)"
    and mt: "extractText resp = JStr s" "s \<noteq> []"
    and fails:
      "(\<exists>e. fst (synthesizeSpeech_dep d
                 (speechArg (quickOf ev) (ev_style ev) (topicOf ev) (optionsOf ev) (JStr s)))
             = Inl e)
       \<or> (\<exists>v. fst (synthesizeSpeech_dep d
                   (speechArg (quickOf ev) (ev_style ev) (topicOf ev) (optionsOf ev) (JStr s)))
               = Inr v
             \<and> \<not> truthy (js_get v (js ''success'')) \<and> \<not> truthy (js_get v (js ''audioUrl'')))"
  shows "\<exists>dat. fst (handleMeditationGuide cfg types d ev)
             = \<lparr> r_success = True, r_data = Some dat, r_error = None \<rparr>
           \<and> d_text dat = JStr s \<and> d_audio dat = None"
proof -
  have t: "truthy (extractText resp)" using mt by simp
  have vp: "fst (voicePhase d (quickOf ev) (ev_style ev) (topicOf ev) (optionsOf ev) (JStr s))
              = None"
    using fails voicePhase_throws voicePhase_no_url by blast
  obtain audio where a: "fst (handleMeditationGuide cfg types d ev) =
           assemble types (topicOf ev) (ev_style ev) (effectiveDuration ev) (quickOf ev)
             (languageOf ev) (JStr s) audio" and "audio = None"
    using handle_ok_result[OF valid llm t] vp unfolding mt by blast
  then show ?thesis
    using assemble_string[of types "topicOf ev" "ev_style ev" "effectiveDuration ev"
            "quickOf ev" "languageOf ev" s None]
    by auto
qed

theorem synthesis_failure_keeps_text_witness:
  "validateInputs sample_config [sample_topic] (topicOf sample_event) (languageOf sample_event)
       (effectiveDuration sample_event) = None
   \<and> fst (sample_adapter (speechArg (quickOf sample_event) (ev_style sample_event)
             (topicOf sample_event) (optionsOf sample_event) (JStr (js ''Breathe in slowly.''))))
       = Inl SynthesisFailed
   \<and> length (snd (sample_adapter (speechArg (quickOf sample_event) (ev_style sample_event)
             (topicOf sample_event) (optionsOf sample_event) (JStr (js ''Breathe in slowly.''))))) = 2
   \<and> (\<exists>dat. fst (handleMeditationGuide sample_config [sample_topic]
                  \<lparr> callLLM = sample_llm, synthesizeSpeech_dep = sample_adapter \<rparr> sample_event)
             = \<lparr> r_success = True, r_data = Some dat, r_error = None \<rparr>
           \<and> d_text dat = JStr (js ''Breathe in slowly.'') \<and> d_audio dat = None)"
proof -
  let ?d = "\<lparr> callLLM = sample_llm, synthesizeSpeech_dep = sample_adapter \<rparr>"
  let ?arg = "speechArg (quickOf sample_event) (ev_style sample_event)
             (topicOf sample_event) (optionsOf sample_event) (JStr (js ''Breathe in slowly.''))"
  have v: "validateInputs sample_config [sample_topic] (topicOf sample_event)
       (languageOf sample_event) (effectiveDuration sample_event) = None"
    by code_simp
  have l: "callLLM ?d (requestOf sample_config [sample_topic] sample_event)
       = Inr \<lparr> rs_success = JBool True, rs_error = JUndefined,
           rs_text = JStr (js ''Breathe in slowly.''), rs_choice_content = JUndefined,
           rs_content = JStr (js ''Breathe in slowly.'') \<rparr>"
    by (simp add: sample_llm_answer(1))
  note x = sample_llm_answer(3)
  note n = sample_llm_answer(4)
  have m: "tts_module sample_env empty_registry (JStr (js ''Breathe in slowly.''))
             = (Inl SynthesisFailed,
                snd (tts_module sample_env empty_registry (JStr (js ''Breathe in slowly.''))))"
    "length (snd (tts_module sample_env empty_registry (JStr (js ''Breathe in slowly.'')))) = 2"
    by code_simp+
  have a: "sample_adapter ?arg
             = tts_module sample_env empty_registry (JStr (js ''Breathe in slowly.''))"
    by (simp add: sample_adapter_def speechArg_text)
  have f: "fst (sample_adapter ?arg) = Inl SynthesisFailed"
    unfolding a using m(1) by (metis fst_conv)
  have c: "length (snd (sample_adapter ?arg)) = 2"
    unfolding a by (rule m(2))
  have f': "(\<exists>e. fst (synthesizeSpeech_dep ?d ?arg) = Inl e)
       \<or> (\<exists>v. fst (synthesizeSpeech_dep ?d ?arg) = Inr v
             \<and> \<not> truthy (js_get v (js ''success'')) \<and> \<not> truthy (js_get v (js ''audioUrl'')))"
    using f by simp
  from synthesis_failure_keeps_text[OF v l sample_llm_answer(2) x n f'] v f c
  show ?thesis by blast
qed

text \<open>
  C4. A successful result of \<open>handleMeditationGuide\<close> carries a text that is a non-empty
  string. When the text extracted from the model's response is empty (falsy), the result
  is a failure, with the empty-content code when the response itself reported success.
\<close>

theorem success_carries_text:
  "(r_success (fst (handleMeditationGuide cfg types d ev)) \<longrightarrow>
      (\<exists>dat s. r_data (fst (handleMeditationGuide cfg types d ev)) = Some dat
         \<and> d_text dat = JStr s \<and> s \<noteq> []))
   \<and> (validateInputs cfg types (topicOf ev) (languageOf ev) (effectiveDuration ev) = None
       \<and> callLLM d (requestOf cfg types ev) = Inr resp \<and> truthy (rs_success resp)
       \<and> \<not> truthy (extractText resp) \<longrightarrow>
      handleMeditationGuide cfg types d ev
        = (failure (Error EMPTY_CONTENT), [CallLLM (requestOf cfg types ev)]))
   \<and> (callLLM d (requestOf cfg types ev) = Inr resp \<and> \<not> truthy (extractText resp) \<longrightarrow>
      \<not> r_success (fst (handleMeditationGuide cfg types d ev)))"
  (is "?A \<and> ?B \<and> ?C")
proof -
  have b: ?B using handle_empty_text by blast
  have ac: "?A \<and> ?C"
  proof (cases rule: handle_cases[where cfg=cfg and types=types and ev=ev and d=d])
    case (invalid err)
    then show ?thesis by (simp add: failure_not_success)
  next
    case (failed err)
    then show ?thesis by (simp add: failure_not_success)
  next
    case (ok r)
    obtain audio where a: "fst (handleMeditationGuide cfg types d ev) =
           assemble types (topicOf ev) (ev_style ev) (effectiveDuration ev) (quickOf ev)
             (languageOf ev) (extractText r) audio"
      using handle_ok_result[OF ok] by blast
    have A: ?A
    proof
      assume "r_success (fst (handleMeditationGuide cfg types d ev))"
      then obtain s dat where s: "extractText r = JStr s"
          "r_data (fst (handleMeditationGuide cfg types d ev)) = Some dat" "d_text dat = JStr s"
        unfolding a using assemble_success by blast
      with ok(4) have "s \<noteq> []" by simp
      with s show "\<exists>dat s. r_data (fst (handleMeditationGuide cfg types d ev)) = Some dat
         \<and> d_text dat = JStr s \<and> s \<noteq> []" by blast
    qed
    have C: ?C using ok by auto
    from A C show ?thesis by blast
  qed
  from b ac show ?thesis by blast
qed

theorem success_carries_text_witness:
  "r_success (fst (handleMeditationGuide sample_config [sample_topic] sample_deps sample_event))
   \<and> (\<exists>dat s. r_data (fst (handleMeditationGuide sample_config [sample_topic] sample_deps
                   sample_event)) = Some dat \<and> d_text dat = JStr s \<and> s \<noteq> [])
   \<and> \<not> truthy (extractText \<lparr> rs_success = JBool True, rs_error = JUndefined, rs_text = JStr [],
           rs_choice_content = JUndefined, rs_content = JUndefined \<rparr>)
   \<and> handleMeditationGuide sample_config [sample_topic]
         \<lparr> callLLM = sample_empty_llm, synthesizeSpeech_dep = sample_adapter \<rparr> sample_event
        = (failure (Error EMPTY_CONTENT),
           [CallLLM (requestOf sample_config [sample_topic] sample_event)])"
proof -
  let ?r = "\<lparr> rs_success = JBool True, rs_error = JUndefined, rs_text = JStr [],
           rs_choice_content = JUndefined, rs_content = JUndefined \<rparr>"
  let ?d = "\<lparr> callLLM = sample_empty_llm, synthesizeSpeech_dep = sample_adapter \<rparr>"
  have v: "validateInputs sample_config [sample_topic] (topicOf sample_event)
       (languageOf sample_event) (effectiveDuration sample_event) = None"
    by code_simp
  have s: "r_success (fst (handleMeditationGuide sample_config [sample_topic] sample_deps
             sample_event))"
    by (rule handle_success[OF v _ sample_llm_answer(2,3,4)])
       (simp add: sample_deps_fields(1) sample_llm_answer(1))
  have l: "callLLM ?d (requestOf sample_config [sample_topic] sample_event) = Inr ?r"
    by (simp add: sample_empty_llm_def)
  have e: "\<not> truthy (extractText ?r)" by code_simp
  have t: "truthy (rs_success ?r)" by simp
  show ?thesis
    using success_carries_text
            [where cfg = sample_config and types = "[sample_topic]" and d = sample_deps
               and ev = sample_event]
          success_carries_text
            [where cfg = sample_config and types = "[sample_topic]" and d = ?d
               and ev = sample_event and resp = ?r]
          s v l e t
    by blast
qed


lemma system_prompts_differ: "quick_system_prompt \<noteq> standard_system_prompt"
  by (simp add: quick_system_prompt_def standard_system_prompt_def)

lemma calculateMaxTokens_product:
  "calculateMaxTokens duration True
     = math_floor
         (num_mul (num_mul (num_mul (num_mul duration (Fin 175)) (Fin (15 / 10)))
                     (lit (12 / 10))) (lit (8 / 10)))"
  by (simp add: calculateMaxTokens_def WORDS_PER_MINUTE_def TOKENS_PER_WORD_def
        TOKEN_BUFFER_def)

lemma calculateMaxTokens_whole_minutes:
  "calculateMaxTokens (Fin 1) False = Fin 315"
  "calculateMaxTokens (Fin 1) True = Fin 252"
  "calculateMaxTokens (Fin 2) False = Fin 630"
  "calculateMaxTokens (Fin 2) True = Fin 504"
  "math_floor (num_mul (Fin 315) (lit (8 / 10))) = Fin 252"
  "math_floor (num_mul (Fin 630) (lit (8 / 10))) = Fin 504"
  by code_simp+

text \<open>
  The double \<open>0x1.1249249249249p+0\<close>, a little above 1.0714: the roundings of the
  four products bring the quick budget to 270, where exact arithmetic would give 269.
\<close>

lemma calculateMaxTokens_rounds:
  "calculateMaxTokens (Fin (4825285315039817 / 4503599627370496)) True = Fin 270"
  "\<lfloor>(4825285315039817 / 4503599627370496 :: rat) * 175 * (15 / 10) * (12 / 10) * (8 / 10)\<rfloor>
     = 269"
  by code_simp+

lemma temperatures_differ: "lit (6 / 10) \<noteq> lit (7 / 10)"
  by code_simp

lemma assemble_mode:
  "r_success (assemble types topic style duration quick language mt audio) \<Longrightarrow>
   \<exists>dat. r_data (assemble types topic style duration quick language mt audio) = Some dat
      \<and> md_mode (d_metadata dat) = (if quick then Quick else Standard)"
  by (cases mt) (simp_all add: assemble_def Let_def failure_def)

text \<open>
  C6, as amended. When the duration the function works with (the requested one, or the
  default 10 when that is absent, 0 or \<open>NaN\<close>) is below 3, the quick mode is chosen:
  the request to the model has the quick system prompt, which is not the standard one,
  the temperature 0.6 where the standard mode takes the caller's or 0.7, and as token
  budget the floor, taken once, of the product of the duration, 175, 1.5, 1.2 and 0.8.
  For 1 and 2 minutes the standard budgets are 315 and 630 and the quick ones 252 and
  504, which is also the floor of the standard budget times 0.8. A request that passes
  validation is sent to the model with this request, and a successful result is marked
  as quick.
\<close>

theorem quick_mode_below_three_minutes:
  assumes below: "num_lt (effectiveDuration ev) (Fin 3)"
  shows "quickOf ev
    \<and> rq_system (requestOf cfg types ev) = quick_system_prompt
    \<and> quick_system_prompt \<noteq> standard_system_prompt
    \<and> rq_temperature (requestOf cfg types ev) = lit (6 / 10)
    \<and> lit (6 / 10) \<noteq> lit (7 / 10)
    \<and> rq_maxTokens (requestOf cfg types ev) = calculateMaxTokens (effectiveDuration ev) True
    \<and> calculateMaxTokens (effectiveDuration ev) True
        = math_floor
            (num_mul (num_mul (num_mul (num_mul (effectiveDuration ev) (Fin 175))
                                 (Fin (15 / 10))) (lit (12 / 10))) (lit (8 / 10)))
    \<and> (validateInputs cfg types (topicOf ev) (languageOf ev) (effectiveDuration ev) = None \<longrightarrow>
          (\<exists>fx. snd (handleMeditationGuide cfg types d ev)
                   = CallLLM (requestOf cfg types ev) # fx))
    \<and> (r_success (fst (handleMeditationGuide cfg types d ev)) \<longrightarrow>
          (\<exists>dat. r_data (fst (handleMeditationGuide cfg types d ev)) = Some dat
             \<and> md_mode (d_metadata dat) = Quick))
    \<and> (\<forall>ev'. \<not> quickOf ev' \<longrightarrow>
          rq_system (requestOf cfg types ev') = standard_system_prompt
          \<and> rq_temperature (requestOf cfg types ev')
              = num_or (op_temperature (optionsOf ev')) (lit (7 / 10))
          \<and> rq_maxTokens (requestOf cfg types ev')
              = calculateMaxTokens (effectiveDuration ev') False)
    \<and> num_or None (lit (7 / 10)) = lit (7 / 10)
    \<and> calculateMaxTokens (Fin 1) False = Fin 315
    \<and> calculateMaxTokens (Fin 1) True = Fin 252
    \<and> calculateMaxTokens (Fin 1) True
        = math_floor (num_mul (calculateMaxTokens (Fin 1) False) (lit (8 / 10)))
    \<and> calculateMaxTokens (Fin 2) False = Fin 630
    \<and> calculateMaxTokens (Fin 2) True = Fin 504
    \<and> calculateMaxTokens (Fin 2) True
        = math_floor (num_mul (calculateMaxTokens (Fin 2) False) (lit (8 / 10)))"
proof -
  have q: "quickOf ev" using below by (simp add: quickOf_def isQuickMode_def)
  have r1: "rq_system (requestOf cfg types ev) = quick_system_prompt"
    and r2: "rq_temperature (requestOf cfg types ev) = lit (6 / 10)"
    and r3: "rq_maxTokens (requestOf cfg types ev) = calculateMaxTokens (effectiveDuration ev) True"
    using q by (simp_all add: requestOf_def llmRequest_def)
  note f = calculateMaxTokens_product[of "effectiveDuration ev"]
  have h: "validateInputs cfg types (topicOf ev) (languageOf ev) (effectiveDuration ev) = None \<longrightarrow>
          (\<exists>fx. snd (handleMeditationGuide cfg types d ev)
                   = CallLLM (requestOf cfg types ev) # fx)"
    by (cases rule: handle_cases[where cfg=cfg and types=types and ev=ev and d=d])
       (simp_all add: handle_text_ok)
  have m: "r_success (fst (handleMeditationGuide cfg types d ev)) \<longrightarrow>
          (\<exists>dat. r_data (fst (handleMeditationGuide cfg types d ev)) = Some dat
             \<and> md_mode (d_metadata dat) = Quick)"
  proof (cases rule: handle_cases[where cfg=cfg and types=types and ev=ev and d=d])
    case (invalid err)
    then show ?thesis by (simp add: failure_not_success)
  next
    case (failed err)
    then show ?thesis by (simp add: failure_not_success)
  next
    case (ok r)
    obtain audio where a: "fst (handleMeditationGuide cfg types d ev) =
           assemble types (topicOf ev) (ev_style ev) (effectiveDuration ev) (quickOf ev)
             (languageOf ev) (extractText r) audio"
      using handle_ok_result[OF ok] by blast
    show ?thesis unfolding a using assemble_mode[of types "topicOf ev" "ev_style ev"
        "effectiveDuration ev" "quickOf ev" "languageOf ev" "extractText r" audio] q by simp
  qed
  have s: "\<forall>ev'. \<not> quickOf ev' \<longrightarrow>
          rq_system (requestOf cfg types ev') = standard_system_prompt
          \<and> rq_temperature (requestOf cfg types ev')
              = num_or (op_temperature (optionsOf ev')) (lit (7 / 10))
          \<and> rq_maxTokens (requestOf cfg types ev')
              = calculateMaxTokens (effectiveDuration ev') False"
    by (simp add: requestOf_def llmRequest_def)
  have n: "num_or None (lit (7 / 10)) = lit (7 / 10)" by (simp add: num_or_def)
  note w = calculateMaxTokens_whole_minutes
  have w1: "calculateMaxTokens (Fin 1) True
        = math_floor (num_mul (calculateMaxTokens (Fin 1) False) (lit (8 / 10)))"
    by (simp only: w)
  have w2: "calculateMaxTokens (Fin 2) True
        = math_floor (num_mul (calculateMaxTokens (Fin 2) False) (lit (8 / 10)))"
    by (simp only: w)
  from q r1 r2 r3 system_prompts_differ temperatures_differ f h m s n w(1-4) w1 w2
  show ?thesis by blast
qed

theorem quick_mode_below_three_minutes_witness:
  "num_lt (effectiveDuration sample_quick_event) (Fin 3)
   \<and> effectiveDuration sample_quick_event = Fin 2
   \<and> quickOf sample_quick_event
   \<and> rq_system (requestOf sample_config [sample_topic] sample_quick_event) = quick_system_prompt
   \<and> rq_temperature (requestOf sample_config [sample_topic] sample_quick_event) = lit (6 / 10)
   \<and> rq_maxTokens (requestOf sample_config [sample_topic] sample_quick_event) = Fin 504
   \<and> (\<exists>fx. snd (handleMeditationGuide sample_config [sample_topic] sample_deps sample_quick_event)
          = CallLLM (requestOf sample_config [sample_topic] sample_quick_event) # fx)
   \<and> (\<exists>dat. r_data (fst (handleMeditationGuide sample_config [sample_topic] sample_deps
          sample_quick_event)) = Some dat \<and> md_mode (d_metadata dat) = Quick)"
proof -
  have b: "num_lt (effectiveDuration sample_quick_event) (Fin 3)" by code_simp
  have e: "effectiveDuration sample_quick_event = Fin 2" by code_simp
  have v: "validateInputs sample_config [sample_topic] (topicOf sample_quick_event)
       (languageOf sample_quick_event) (effectiveDuration sample_quick_event) = None"
    by code_simp
  have s: "r_success (fst (handleMeditationGuide sample_config [sample_topic] sample_deps
             sample_quick_event))"
    by (rule handle_success[OF v _ sample_llm_answer(2,3,4)])
       (simp add: sample_deps_fields(1) sample_llm_answer(1))
  note th = quick_mode_below_three_minutes
      [OF b, where cfg = sample_config and types = "[sample_topic]" and d = sample_deps]
  from th have q: "quickOf sample_quick_event" by blast
  from th have r1: "rq_system (requestOf sample_config [sample_topic] sample_quick_event)
                      = quick_system_prompt" by blast
  from th have r2: "rq_temperature (requestOf sample_config [sample_topic] sample_quick_event)
                      = lit (6 / 10)" by blast
  from th have "rq_maxTokens (requestOf sample_config [sample_topic] sample_quick_event)
                  = calculateMaxTokens (effectiveDuration sample_quick_event) True" by blast
  moreover from th have "calculateMaxTokens (Fin 2) True = Fin 504" by blast
  ultimately have r3: "rq_maxTokens (requestOf sample_config [sample_topic] sample_quick_event)
                  = Fin 504" unfolding e by simp
  from th v have c: "\<exists>fx. snd (handleMeditationGuide sample_config [sample_topic] sample_deps
          sample_quick_event)
          = CallLLM (requestOf sample_config [sample_topic] sample_quick_event) # fx" by blast
  from th s have m: "\<exists>dat. r_data (fst (handleMeditationGuide sample_config [sample_topic]
          sample_deps sample_quick_event)) = Some dat \<and> md_mode (d_metadata dat) = Quick"
    by blast
  from b e q r1 r2 r3 c m show ?thesis by blast
qed

text \<open>
  The claim as it was stated fails in two places. A requested duration of 0 is below 3,
  but it counts as absent: the request runs in standard mode with the default duration,
  the standard system prompt, temperature 0.7 and 3150 tokens. A requested duration of
  one and a half minutes passes validation and runs in quick mode with 378 tokens, while
  the standard budget is 472 and the floor of 472 times 0.8 is 377.
\<close>

theorem quick_mode_counterexample:
  "ev_duration sample_zero_event = Some (Fin 0)
   \<and> num_lt (Fin 0) (Fin 3)
   \<and> \<not> quickOf sample_zero_event
   \<and> validateInputs sample_config [sample_topic] (topicOf sample_zero_event)
         (languageOf sample_zero_event) (effectiveDuration sample_zero_event) = None
   \<and> rq_system (requestOf sample_config [sample_topic] sample_zero_event)
       = standard_system_prompt
   \<and> rq_temperature (requestOf sample_config [sample_topic] sample_zero_event) = lit (7 / 10)
   \<and> rq_maxTokens (requestOf sample_config [sample_topic] sample_zero_event) = Fin 3150
   \<and> ev_duration sample_fraction_event = Some (Fin (3 / 2))
   \<and> quickOf sample_fraction_event
   \<and> validateInputs sample_config [sample_topic] (topicOf sample_fraction_event)
         (languageOf sample_fraction_event) (effectiveDuration sample_fraction_event) = None
   \<and> rq_maxTokens (requestOf sample_config [sample_topic] sample_fraction_event) = Fin 378
   \<and> calculateMaxTokens (Fin (3 / 2)) False = Fin 472
   \<and> math_floor (num_mul (Fin 472) (lit (8 / 10))) = Fin 377"
proof -
  have z: "ev_duration sample_zero_event = Some (Fin 0)" "num_lt (Fin 0) (Fin 3)"
    "\<not> quickOf sample_zero_event"
    "effectiveDuration sample_zero_event = Fin 10"
    "op_temperature (optionsOf sample_zero_event) = None"
    "validateInputs sample_config [sample_topic] (topicOf sample_zero_event)
         (languageOf sample_zero_event) (effectiveDuration sample_zero_event) = None"
    by code_simp+
  have f: "ev_duration sample_fraction_event = Some (Fin (3 / 2))"
    "quickOf sample_fraction_event"
    "effectiveDuration sample_fraction_event = Fin (3 / 2)"
    "validateInputs sample_config [sample_topic] (topicOf sample_fraction_event)
         (languageOf sample_fraction_event) (effectiveDuration sample_fraction_event) = None"
    by code_simp+
  have c: "calculateMaxTokens (Fin 10) False = Fin 3150"
    "calculateMaxTokens (Fin (3 / 2)) True = Fin 378"
    "calculateMaxTokens (Fin (3 / 2)) False = Fin 472"
    "math_floor (num_mul (Fin 472) (lit (8 / 10))) = Fin 377"
    by code_simp+
  have n: "num_or None (lit (7 / 10)) = lit (7 / 10)" by (simp add: num_or_def)
  show ?thesis
    unfolding request_fields using z f c n by simp
qed

text \<open>
  C2. A request for voice in Chinese with the skip-audio flag set: the router still
  calls \<open>synthesizeSpeech\<close>. The flag is never read.
\<close>

theorem skipAudio_is_ignored:
  "op_skipAudio (optionsOf sample_skip_event) = Some True
   \<and> snd (handleMeditationGuide sample_config [sample_topic] sample_deps sample_skip_event)
      = [CallLLM (requestOf sample_config [sample_topic] sample_skip_event),
         CallSynthesizeSpeech
           (speechArg False None (js ''sleep'') (optionsOf sample_skip_event)
              (JStr (js ''Breathe in slowly.'')))]"
proof -
  have o: "op_skipAudio (optionsOf sample_skip_event) = Some True" by code_simp
  have v: "validateInputs sample_config [sample_topic] (topicOf sample_skip_event)
       (languageOf sample_skip_event) (effectiveDuration sample_skip_event) = None"
    by code_simp
  have g: "voiceOf sample_skip_event" "languageOf sample_skip_event = js ''zh''"
    "quickOf sample_skip_event = False" "ev_style sample_skip_event = None"
    "topicOf sample_skip_event = js ''sleep''"
    by code_simp+
  have l: "callLLM sample_deps (requestOf sample_config [sample_topic] sample_skip_event)
       = Inr \<lparr> rs_success = JBool True, rs_error = JUndefined,
           rs_text = JStr (js ''Breathe in slowly.''), rs_choice_content = JUndefined,
           rs_content = JStr (js ''Breathe in slowly.'') \<rparr>"
    by (simp add: sample_deps_fields(1) sample_llm_answer(1))
  have t: "truthy (extractText \<lparr> rs_success = JBool True, rs_error = JUndefined,
           rs_text = JStr (js ''Breathe in slowly.''), rs_choice_content = JUndefined,
           rs_content = JStr (js ''Breathe in slowly.'') \<rparr>)"
    using sample_llm_answer(3,4) by simp
  have p: "voicePhase sample_deps False None (js ''sleep'') (optionsOf sample_skip_event)
             (JStr (js ''Breathe in slowly.''))
           = (None, [CallSynthesizeSpeech
                (speechArg False None (js ''sleep'') (optionsOf sample_skip_event)
                   (JStr (js ''Breathe in slowly.'')))])"
    using voicePhase_deployed[of sample_llm sample_env empty_registry]
    by (simp add: sample_deps_fields(2)[symmetric])
  have "snd (handleMeditationGuide sample_config [sample_topic] sample_deps sample_skip_event)
      = [CallLLM (requestOf sample_config [sample_topic] sample_skip_event),
         CallSynthesizeSpeech
           (speechArg False None (js ''sleep'') (optionsOf sample_skip_event)
              (JStr (js ''Breathe in slowly.'')))]"
    unfolding handle_text_ok[OF v l sample_llm_answer(2) t]
    by (simp add: g sample_llm_answer(3) p)
  with o show ?thesis by blast
qed

text \<open>What the gate of the voice phase does test: the voice flag and the language.\<close>

lemma speech_call_only_if_voice_zh:
  assumes "CallSynthesizeSpeech arg \<in> set (snd (handleMeditationGuide cfg types d ev))"
  shows "voiceOf ev \<and> languageOf ev = js ''zh''"
proof (cases rule: handle_cases[where cfg=cfg and types=types and ev=ev and d=d])
  case (invalid err)
  with assms show ?thesis by simp
next
  case (failed err)
  with assms show ?thesis by simp
next
  case (ok r)
  show ?thesis
  proof (rule ccontr)
    assume "\<not> (voiceOf ev \<and> languageOf ev = js ''zh'')"
    then have "snd (handleMeditationGuide cfg types d ev) = [CallLLM (requestOf cfg types ev)]"
      unfolding handle_text_ok[OF ok] by auto
    with assms show False by simp
  qed
qed

lemma speech_call_if_voice_zh:
  assumes "validateInputs cfg types (topicOf ev) (languageOf ev) (effectiveDuration ev) = None"
    and "callLLM d (requestOf cfg types ev) = Inr resp"
    and "truthy (rs_success resp)" and "truthy (extractText resp)"
    and "voiceOf ev" and "languageOf ev = js ''zh''"
  shows "CallSynthesizeSpeech
           (speechArg (quickOf ev) (ev_style ev) (topicOf ev) (optionsOf ev) (extractText resp))
         \<in> set (snd (handleMeditationGuide cfg types d ev))"
  unfolding handle_text_ok[OF assms(1-4)] using assms(5,6)
  by (simp add: voicePhase_effects)

text \<open>
  C10. For the topic \<open>sleep\<close> of the sample catalogue, which recommends \<open>healing\<close>
  first and 30 minutes, \<open>buildPrompt\<close> called without style and duration uses
  \<open>gentle\<close> and 10: the parameter defaults fill the absent properties before the
  topic is looked up.
\<close>

theorem buildPrompt_unset_ignores_topic_defaults:
  "findTopicConfig [sample_topic] (js ''sleep'') = Some sample_topic
   \<and> tc_recommendedStyles sample_topic = [js ''healing'', js ''gentle'']
   \<and> tc_defaultDuration sample_topic = Fin 30
   \<and> bp_style (buildPrompt [sample_topic]
        \<lparr> pa_topic = Some (js ''sleep''), pa_style = None, pa_duration = None,
          pa_language = None, pa_customization = None \<rparr>) = Some (js ''gentle'')
   \<and> bp_duration (buildPrompt [sample_topic]
        \<lparr> pa_topic = Some (js ''sleep''), pa_style = None, pa_duration = None,
          pa_language = None, pa_customization = None \<rparr>) = Fin 10"
  by code_simp

text \<open>
  In general: an absent style or duration gets the parameter default whatever the topic;
  a non-empty style and a non-zero duration are kept; only a falsy value that is
  present (an empty style, a zero duration) is replaced by the topic's own default.
\<close>

lemma gentle_nonempty: "js ''gentle'' \<noteq> []"
  by (simp add: js_def)

lemma buildPrompt_absent_style:
  "pa_style a = None \<Longrightarrow> bp_style (buildPrompt types a) = Some (js ''gentle'')"
  by (simp add: buildPrompt_def Let_def gentle_nonempty split: option.splits)

lemma buildPrompt_absent_duration:
  "pa_duration a = None \<Longrightarrow> bp_duration (buildPrompt types a) = Fin 10"
  by (simp add: buildPrompt_def Let_def split: option.splits)

lemma buildPrompt_explicit_style:
  "pa_style a = Some st \<Longrightarrow> st \<noteq> [] \<Longrightarrow> bp_style (buildPrompt types a) = Some st"
  by (simp add: buildPrompt_def Let_def split: option.splits)

lemma buildPrompt_explicit_duration:
  "pa_duration a = Some x \<Longrightarrow> num_truthy x \<Longrightarrow> bp_duration (buildPrompt types a) = x"
  by (simp add: buildPrompt_def Let_def split: option.splits)

lemma buildPrompt_falsy_values:
  assumes "pa_topic a = Some topic" "findTopicConfig types topic = Some tc"
    and "pa_style a = Some []" "pa_duration a = Some (Fin 0)"
    and "tc_recommendedStyles tc = st # sts"
  shows "bp_style (buildPrompt types a) = Some st"
    and "bp_duration (buildPrompt types a) = tc_defaultDuration tc"
  using assms by (simp_all add: buildPrompt_def Let_def)


lemma batchLoop_results:
  "fst (batchLoop cfg types d base topics acc) =
     acc @ map (\<lambda>t. \<lparr> bi_topic = ev_topic (itemOptions base t),
                       bi_success = r_success (fst (handleMeditationGuide cfg types d
                                                      (itemOptions base t))),
                       bi_data = (if r_success (fst (handleMeditationGuide cfg types d
                                                      (itemOptions base t)))
                                  then r_data (fst (handleMeditationGuide cfg types d
                                                      (itemOptions base t)))
                                  else None),
                       bi_error = r_error (fst (handleMeditationGuide cfg types d
                                                      (itemOptions base t))) \<rparr>) topics"
  by (induction topics arbitrary: acc) (simp_all add: Let_def case_prod_beta)

lemma batchLoop_effects:
  "snd (batchLoop cfg types d base topics acc) =
     concat (map (\<lambda>t. snd (handleMeditationGuide cfg types d (itemOptions base t))) topics)"
  by (induction topics arbitrary: acc) (simp_all add: Let_def case_prod_beta)

lemma filter_split_length:
  "length (filter P xs) + length (filter (\<lambda>x. \<not> P x) xs) = length xs"
  by (induction xs) simp_all

lemma batch_nonempty:
  assumes "be_topics bev = Some topics" "topics \<noteq> []"
  shows "handleBatchGeneration cfg types d bev =
     (\<lparr> br_success = True,
        br_data = Some
          \<lparr> bd_total = length topics,
            bd_successful = length (filter (\<lambda>r. bi_success r)
               (fst (batchLoop cfg types d (baseOptionsOf bev) topics []))),
            bd_failed = length (filter (\<lambda>r. \<not> bi_success r)
               (fst (batchLoop cfg types d (baseOptionsOf bev) topics []))),
            bd_results = fst (batchLoop cfg types d (baseOptionsOf bev) topics []) \<rparr>,
        br_error = None \<rparr>,
      snd (batchLoop cfg types d (baseOptionsOf bev) topics []))"
  using assms by (simp add: handleBatchGeneration_def Let_def case_prod_beta)

lemma spread_empty: "spread a empty_event = a"
  by (simp add: spread_def empty_event_def)

lemma validate_unknown_topic:
  assumes "STRICT_TOPIC_VALIDATION cfg" and "findTopicConfig types topic = None"
  shows "validateInputs cfg types topic (js ''zh'') (Fin 10) = Some (Error INVALID_TOPIC)"
proof -
  have "\<forall>t \<in> set types. map_of (tc_name t) (js ''zh'') \<noteq> Some topic"
    using assms(2) by (auto simp: findTopicConfig_def find_None_iff)
  then have "Some topic \<notin> set (getSupportedTopics types (js ''zh''))"
    by (auto simp: getSupportedTopics_def)
  moreover have "getTopicDetails types topic (js ''zh'') = None"
    using assms(2) by (simp add: getTopicDetails_def)
  moreover have "js ''zh'' \<noteq> []" "js ''zh'' \<in> set SUPPORTED_LANGUAGES"
    by (simp_all add: js_def SUPPORTED_LANGUAGES_def)
  ultimately show ?thesis using assms(1)
    by (simp add: validateInputs_def Let_def)
qed

lemma validate_known_topic:
  assumes "findTopicConfig types topic \<noteq> None"
  shows "validateInputs cfg types topic (js ''zh'') (Fin 10) = None"
proof -
  have "getTopicDetails types topic (js ''zh'') \<noteq> None"
    using assms by (auto simp: getTopicDetails_def)
  moreover have "js ''zh'' \<noteq> []" "js ''zh'' \<in> set SUPPORTED_LANGUAGES"
    by (simp_all add: js_def SUPPORTED_LANGUAGES_def)
  ultimately show ?thesis
    by (auto simp add: validateInputs_def Let_def)
qed

lemma named_event:
  "topicOf (empty_event\<lparr> ev_topic := Some t \<rparr>) = t"
  "languageOf (empty_event\<lparr> ev_topic := Some t \<rparr>) = js ''zh''"
  "effectiveDuration (empty_event\<lparr> ev_topic := Some t \<rparr>) = Fin 10"
  "voiceOf (empty_event\<lparr> ev_topic := Some t \<rparr>) = False"
  "ev_topic (empty_event\<lparr> ev_topic := Some t \<rparr>) = Some t"
  by (simp_all add: topicOf_def languageOf_def effectiveDuration_def voiceOf_def
        empty_event_def DEFAULT_DURATION_def)

text \<open>
  C9. For a non-empty list of topics, \<open>handleBatchGeneration\<close> returns success with
  \<open>total\<close> the length of the list, one result per topic in the order of the list, each
  carrying what \<open>handleMeditationGuide\<close> returned for that topic, \<open>successful\<close> plus
  \<open>failed\<close> equal to \<open>total\<close>, and the calls of the items one after the other. With
  strict validation, a catalogue that knows \<open>sleep\<close> and not \<open>invalid-topic-xyz\<close>, and
  a model client that answers the first request with a text, the batch of these two
  topics has total 2, one success and one failure with the invalid-topic code.
\<close>

theorem batch_never_fails_outright:
  "(be_topics bev = Some topics \<and> topics \<noteq> [] \<longrightarrow>
      (\<exists>dat. fst (handleBatchGeneration cfg types d bev)
               = \<lparr> br_success = True, br_data = Some dat, br_error = None \<rparr>
         \<and> bd_total dat = length topics
         \<and> length (bd_results dat) = length topics
         \<and> bd_successful dat + bd_failed dat = bd_total dat
         \<and> map bi_topic (bd_results dat)
             = map (\<lambda>t. ev_topic (itemOptions (baseOptionsOf bev) t)) topics
         \<and> map bi_success (bd_results dat)
             = map (\<lambda>t. r_success (fst (handleMeditationGuide cfg types d
                                          (itemOptions (baseOptionsOf bev) t)))) topics
         \<and> map bi_error (bd_results dat)
             = map (\<lambda>t. r_error (fst (handleMeditationGuide cfg types d
                                        (itemOptions (baseOptionsOf bev) t)))) topics)
      \<and> snd (handleBatchGeneration cfg types d bev)
          = concat (map (\<lambda>t. snd (handleMeditationGuide cfg types d
                                     (itemOptions (baseOptionsOf bev) t))) topics))
   \<and> (STRICT_TOPIC_VALIDATION cfg
       \<and> findTopicConfig types (js ''sleep'') \<noteq> None
       \<and> findTopicConfig types (js ''invalid-topic-xyz'') = None
       \<and> callLLM d (requestOf cfg types (empty_event\<lparr> ev_topic := Some (js ''sleep'') \<rparr>))
           = Inr resp
       \<and> truthy (rs_success resp) \<and> extractText resp = JStr s \<and> s \<noteq> [] \<longrightarrow>
      (\<exists>dat i1 i2.
          fst (handleBatchGeneration cfg types d sample_batch)
            = \<lparr> br_success = True, br_data = Some dat, br_error = None \<rparr>
          \<and> bd_total dat = 2 \<and> bd_successful dat = 1 \<and> bd_failed dat = 1
          \<and> bd_results dat = [i1, i2]
          \<and> bi_topic i1 = Some (js ''sleep'') \<and> bi_success i1
          \<and> bi_topic i2 = Some (js ''invalid-topic-xyz'') \<and> \<not> bi_success i2
          \<and> bi_error i2 = Some (Error INVALID_TOPIC)))"
  (is "?A \<and> ?B")
proof
  show ?A
  proof
    assume ne: "be_topics bev = Some topics \<and> topics \<noteq> []"
    let ?base = "baseOptionsOf bev"
    let ?H = "\<lambda>t. handleMeditationGuide cfg types d (itemOptions ?base t)"
    let ?item = "\<lambda>t. \<lparr> bi_topic = ev_topic (itemOptions ?base t),
                       bi_success = r_success (fst (?H t)),
                       bi_data = (if r_success (fst (?H t)) then r_data (fst (?H t)) else None),
                       bi_error = r_error (fst (?H t)) \<rparr>"
    let ?res = "map ?item topics"
    let ?dat = "\<lparr> bd_total = length topics,
            bd_successful = length (filter (\<lambda>r. bi_success r) ?res),
            bd_failed = length (filter (\<lambda>r. \<not> bi_success r) ?res),
            bd_results = ?res \<rparr>"
    have loop: "fst (batchLoop cfg types d ?base topics []) = ?res"
      using batchLoop_results[of cfg types d ?base topics "[]"] by simp
    have eq: "handleBatchGeneration cfg types d bev
              = (\<lparr> br_success = True, br_data = Some ?dat, br_error = None \<rparr>,
                 concat (map (\<lambda>t. snd (?H t)) topics))"
      using batch_nonempty[of bev topics cfg types d] ne loop
        batchLoop_effects[of cfg types d ?base topics "[]"] by simp
    have sum: "bd_successful ?dat + bd_failed ?dat = bd_total ?dat"
      using filter_split_length[of bi_success ?res] by simp
    have props: "bd_total ?dat = length topics \<and> length (bd_results ?dat) = length topics
      \<and> map bi_topic (bd_results ?dat) = map (\<lambda>t. ev_topic (itemOptions ?base t)) topics
      \<and> map bi_success (bd_results ?dat) = map (\<lambda>t. r_success (fst (?H t))) topics
      \<and> map bi_error (bd_results ?dat) = map (\<lambda>t. r_error (fst (?H t))) topics"
      by (simp add: comp_def)
    show "(\<exists>dat. fst (handleBatchGeneration cfg types d bev)
               = \<lparr> br_success = True, br_data = Some dat, br_error = None \<rparr>
         \<and> bd_total dat = length topics
         \<and> length (bd_results dat) = length topics
         \<and> bd_successful dat + bd_failed dat = bd_total dat
         \<and> map bi_topic (bd_results dat) = map (\<lambda>t. ev_topic (itemOptions ?base t)) topics
         \<and> map bi_success (bd_results dat) = map (\<lambda>t. r_success (fst (?H t))) topics
         \<and> map bi_error (bd_results dat) = map (\<lambda>t. r_error (fst (?H t))) topics)
      \<and> snd (handleBatchGeneration cfg types d bev)
          = concat (map (\<lambda>t. snd (?H t)) topics)"
      unfolding eq using sum props by (intro conjI exI[of _ ?dat]) simp_all
  qed
next
  show ?B
  proof
    assume h: "STRICT_TOPIC_VALIDATION cfg
       \<and> findTopicConfig types (js ''sleep'') \<noteq> None
       \<and> findTopicConfig types (js ''invalid-topic-xyz'') = None
       \<and> callLLM d (requestOf cfg types (empty_event\<lparr> ev_topic := Some (js ''sleep'') \<rparr>))
           = Inr resp
       \<and> truthy (rs_success resp) \<and> extractText resp = JStr s \<and> s \<noteq> []"
    let ?e1 = "empty_event\<lparr> ev_topic := Some (js ''sleep'') \<rparr>"
    let ?e2 = "empty_event\<lparr> ev_topic := Some (js ''invalid-topic-xyz'') \<rparr>"
    have v1: "validateInputs cfg types (topicOf ?e1) (languageOf ?e1) (effectiveDuration ?e1) = None"
      using h validate_known_topic[of types "js ''sleep''" cfg] by (simp add: named_event)
    have v2: "validateInputs cfg types (topicOf ?e2) (languageOf ?e2) (effectiveDuration ?e2)
                = Some (Error INVALID_TOPIC)"
      using h validate_unknown_topic[of cfg types "js ''invalid-topic-xyz''"]
      by (simp add: named_event)
    have t: "truthy (extractText resp)" using h by simp
    have r1: "fst (handleMeditationGuide cfg types d ?e1) =
                assemble types (topicOf ?e1) (ev_style ?e1) (effectiveDuration ?e1) (quickOf ?e1)
                  (languageOf ?e1) (JStr s) None"
      using handle_text_ok[OF v1 _ _ t, of d] h by (simp add: named_event)
    obtain dat1 where d1: "fst (handleMeditationGuide cfg types d ?e1)
        = \<lparr> r_success = True, r_data = Some dat1, r_error = None \<rparr>"
      unfolding r1 using assemble_string by blast
    have r2: "fst (handleMeditationGuide cfg types d ?e2) = failure (Error INVALID_TOPIC)"
      using handle_invalid[OF v2] by simp
    let ?i1 = "\<lparr> bi_topic = Some (js ''sleep''), bi_success = True, bi_data = Some dat1,
                 bi_error = None \<rparr>"
    let ?i2 = "\<lparr> bi_topic = Some (js ''invalid-topic-xyz''), bi_success = False, bi_data = None,
                 bi_error = Some (Error INVALID_TOPIC) \<rparr>"
    have b: "be_topics sample_batch
               = Some [TopicName (js ''sleep''), TopicName (js ''invalid-topic-xyz'')]"
      "baseOptionsOf sample_batch = empty_event"
      by (simp_all add: sample_batch_def baseOptionsOf_def)
    have loop: "fst (batchLoop cfg types d empty_event
                       [TopicName (js ''sleep''), TopicName (js ''invalid-topic-xyz'')] [])
                = [?i1, ?i2]"
      unfolding batchLoop_results
      by (simp add: spread_empty d1 r2 failure_def named_event)
    let ?dat = "\<lparr> bd_total = 2, bd_successful = 1, bd_failed = 1, bd_results = [?i1, ?i2] \<rparr>"
    have eq: "fst (handleBatchGeneration cfg types d sample_batch)
            = \<lparr> br_success = True, br_data = Some ?dat, br_error = None \<rparr>"
      using batch_nonempty[OF b(1), of cfg types d] loop unfolding b(2)
      by (simp del: batchLoop.simps)
    show "\<exists>dat i1 i2.
          fst (handleBatchGeneration cfg types d sample_batch)
            = \<lparr> br_success = True, br_data = Some dat, br_error = None \<rparr>
          \<and> bd_total dat = 2 \<and> bd_successful dat = 1 \<and> bd_failed dat = 1
          \<and> bd_results dat = [i1, i2]
          \<and> bi_topic i1 = Some (js ''sleep'') \<and> bi_success i1
          \<and> bi_topic i2 = Some (js ''invalid-topic-xyz'') \<and> \<not> bi_success i2
          \<and> bi_error i2 = Some (Error INVALID_TOPIC)"
      unfolding eq by (intro exI[of _ ?dat] exI[of _ ?i1] exI[of _ ?i2]) simp
  qed
qed

theorem batch_never_fails_outright_witness:
  "be_topics sample_batch
      = Some [TopicName (js ''sleep''), TopicName (js ''invalid-topic-xyz'')]
   \<and> STRICT_TOPIC_VALIDATION sample_config
   \<and> findTopicConfig [sample_topic] (js ''sleep'') \<noteq> None
   \<and> findTopicConfig [sample_topic] (js ''invalid-topic-xyz'') = None
   \<and> (\<exists>dat. fst (handleBatchGeneration sample_config [sample_topic] sample_deps sample_batch)
               = \<lparr> br_success = True, br_data = Some dat, br_error = None \<rparr>
         \<and> bd_total dat = 2 \<and> length (bd_results dat) = 2
         \<and> bd_successful dat + bd_failed dat = bd_total dat)
   \<and> (\<exists>dat i1 i2.
          fst (handleBatchGeneration sample_config [sample_topic] sample_deps sample_batch)
            = \<lparr> br_success = True, br_data = Some dat, br_error = None \<rparr>
          \<and> bd_total dat = 2 \<and> bd_successful dat = 1 \<and> bd_failed dat = 1
          \<and> bd_results dat = [i1, i2]
          \<and> bi_topic i1 = Some (js ''sleep'') \<and> bi_success i1
          \<and> bi_topic i2 = Some (js ''invalid-topic-xyz'') \<and> \<not> bi_success i2
          \<and> bi_error i2 = Some (Error INVALID_TOPIC))"
proof -
  let ?r = "\<lparr> rs_success = JBool True, rs_error = JUndefined,
           rs_text = JStr (js ''Breathe in slowly.''), rs_choice_content = JUndefined,
           rs_content = JStr (js ''Breathe in slowly.'') \<rparr>"
  have b: "be_topics sample_batch
      = Some [TopicName (js ''sleep''), TopicName (js ''invalid-topic-xyz'')]"
    by (simp add: sample_batch_def)
  have c: "STRICT_TOPIC_VALIDATION sample_config" by (simp add: sample_config_def)
  have f1: "findTopicConfig [sample_topic] (js ''sleep'') \<noteq> None" by code_simp
  have f2: "findTopicConfig [sample_topic] (js ''invalid-topic-xyz'') = None" by code_simp
  have l: "callLLM sample_deps (requestOf sample_config [sample_topic]
             (empty_event\<lparr> ev_topic := Some (js ''sleep'') \<rparr>)) = Inr ?r"
    by (simp add: sample_deps_def sample_llm_def)
  have x: "extractText ?r = JStr (js ''Breathe in slowly.'')" by code_simp
  have n: "js ''Breathe in slowly.'' \<noteq> []" by code_simp
  have t: "truthy (rs_success ?r)" by simp
  note th = batch_never_fails_outright
      [where bev = sample_batch
         and topics = "[TopicName (js ''sleep''), TopicName (js ''invalid-topic-xyz'')]"
         and cfg = sample_config and types = "[sample_topic]" and d = sample_deps
         and resp = ?r and s = "js ''Breathe in slowly.''"]
  from th b have A: "\<exists>dat. fst (handleBatchGeneration sample_config [sample_topic] sample_deps
                  sample_batch)
               = \<lparr> br_success = True, br_data = Some dat, br_error = None \<rparr>
         \<and> bd_total dat = 2 \<and> length (bd_results dat) = 2
         \<and> bd_successful dat + bd_failed dat = bd_total dat"
    by auto
  from th c f1 f2 l x n t have B: "\<exists>dat i1 i2.
          fst (handleBatchGeneration sample_config [sample_topic] sample_deps sample_batch)
            = \<lparr> br_success = True, br_data = Some dat, br_error = None \<rparr>
          \<and> bd_total dat = 2 \<and> bd_successful dat = 1 \<and> bd_failed dat = 1
          \<and> bd_results dat = [i1, i2]
          \<and> bi_topic i1 = Some (js ''sleep'') \<and> bi_success i1
          \<and> bi_topic i2 = Some (js ''invalid-topic-xyz'') \<and> \<not> bi_success i2
          \<and> bi_error i2 = Some (Error INVALID_TOPIC)"
    by blast
  from b c f1 f2 A B show ?thesis by blast
qed

end
